theory Spec2Isabelle
  imports Main "HOL-Library.Sublist" "HOL-Library.AList"
begin

section \<open>Python strings\<close>

text \<open>
  Log text and host tokens are Python \<open>str\<close> values; they are modelled as HOL strings
  whose characters stand for the code points U+0000 to U+00FF. Character tests are written
  on the code of the character, as the Python predicates are on these code points
  (\<open>str.isspace\<close> and \<open>\s\<close>, \<open>\d\<close>, \<open>str.lower\<close>).
\<close>

definition code :: "char \<Rightarrow> int" where
  "code c = of_char c"

definition is_digit :: "char \<Rightarrow> bool" where
  "is_digit c = (48 \<le> code c \<and> code c \<le> 57)"

text \<open>The ASCII letters (\<open>c.isascii() and c.isalpha()\<close>).\<close>

definition is_upper :: "char \<Rightarrow> bool" where
  "is_upper c = (65 \<le> code c \<and> code c \<le> 90)"

definition is_lower :: "char \<Rightarrow> bool" where
  "is_lower c = (97 \<le> code c \<and> code c \<le> 122)"

definition is_alpha :: "char \<Rightarrow> bool" where
  "is_alpha c = (is_upper c \<or> is_lower c)"

text \<open>
  White space (\<open>str.isspace\<close>, \<open>\s\<close>): tab, LF, VT, FF, CR, the separators 0x1C..0x1F,
  space, NEL (0x85) and the no-break space (0xA0).
\<close>

definition is_space :: "char \<Rightarrow> bool" where
  "is_space c =
     ((9 \<le> code c \<and> code c \<le> 13) \<or> (28 \<le> code c \<and> code c \<le> 32)
      \<or> code c = 133 \<or> code c = 160)"

text \<open>
  Case folding: the ASCII letters and the letters 0xC0..0xDE (but the sign 0xD7) have a
  lower case 32 above; the letters 0xE0..0xFE (but the sign 0xF7) have an upper case 32
  below.
\<close>

definition has_lower :: "char \<Rightarrow> bool" where
  "has_lower c = (is_upper c \<or> (192 \<le> code c \<and> code c \<le> 222 \<and> code c \<noteq> 215))"

definition has_upper :: "char \<Rightarrow> bool" where
  "has_upper c = (is_lower c \<or> (224 \<le> code c \<and> code c \<le> 254 \<and> code c \<noteq> 247))"

definition lower_chr :: "char \<Rightarrow> char" where
  "lower_chr c = (if has_lower c then char_of (code c + 32) else c)"

definition upper_chr :: "char \<Rightarrow> char" where
  "upper_chr c = (if has_upper c then char_of (code c - 32) else c)"

text \<open>\<open>s.lower()\<close>\<close>

definition lower :: "string \<Rightarrow> string" where
  "lower s = map lower_chr s"

text \<open>\<open>s.strip(chars)\<close>, \<open>s.lstrip(chars)\<close> and \<open>s.strip()\<close>\<close>

definition lstrip_by :: "(char \<Rightarrow> bool) \<Rightarrow> string \<Rightarrow> string" where
  "lstrip_by P s = dropWhile P s"

definition strip_by :: "(char \<Rightarrow> bool) \<Rightarrow> string \<Rightarrow> string" where
  "strip_by P s = rev (dropWhile P (rev (dropWhile P s)))"

definition strip :: "string \<Rightarrow> string \<Rightarrow> string" where
  "strip chars s = strip_by (\<lambda>c. List.member chars c) s"

definition strip_ws :: "string \<Rightarrow> string" where
  "strip_ws s = strip_by is_space s"

text \<open>\<open>sub in s\<close> for strings: \<open>sub\<close> occurs in \<open>s\<close> as a contiguous substring.\<close>

fun contains :: "string \<Rightarrow> string \<Rightarrow> bool" where
  "contains sub [] = (sub = [])"
| "contains sub (c # cs) = (if prefix sub (c # cs) then True else contains sub cs)"

text \<open>\<open>s.split(sep)\<close> for a one-character separator: the pieces between the separators.\<close>

fun split_chr :: "char \<Rightarrow> string \<Rightarrow> string list" where
  "split_chr sep [] = [[]]"
| "split_chr sep (c # cs) =
     (if c = sep then [] # split_chr sep cs
      else (case split_chr sep cs of
              [] \<Rightarrow> [[c]]
            | w # ws \<Rightarrow> (c # w) # ws))"

text \<open>\<open>s.partition(sep)\<close> and \<open>s.rpartition(sep)\<close> for a one-character separator.\<close>

definition partition_chr :: "char \<Rightarrow> string \<Rightarrow> string \<times> bool \<times> string" where
  "partition_chr sep s =
     (if sep \<in> set s
      then (takeWhile (\<lambda>c. c \<noteq> sep) s, True, tl (dropWhile (\<lambda>c. c \<noteq> sep) s))
      else (s, False, []))"

definition rpartition_chr :: "char \<Rightarrow> string \<Rightarrow> string \<times> bool \<times> string" where
  "rpartition_chr sep s =
     (if sep \<in> set s
      then (rev (tl (dropWhile (\<lambda>c. c \<noteq> sep) (rev s))), True,
            rev (takeWhile (\<lambda>c. c \<noteq> sep) (rev s)))
      else ([], False, s))"

text \<open>\<open>s.replace(old, '')\<close>: every occurrence of \<open>old\<close>, left to right, is removed.\<close>

function replace_del :: "string \<Rightarrow> string \<Rightarrow> string" where
  "replace_del old [] = []"
| "replace_del old (c # cs) =
     (if old \<noteq> [] \<and> prefix old (c # cs)
      then replace_del old (drop (length old) (c # cs))
      else c # replace_del old cs)"
  by pat_completeness auto
termination
  by (relation "measure (\<lambda>(old, s). length s)") (auto simp: Suc_diff_le prefix_def)

section \<open>Exceptions\<close>

datatype py_error =
    ValueError
  | IndexError
  | TypeError
  | AttributeError
  | KeyError
  | OSError string
  | SystemExit nat

text \<open>\<open>xs[0]\<close> and \<open>xs[-1]\<close> raise IndexError on an empty list.\<close>

definition index_first :: "'a list \<Rightarrow> py_error + 'a" where
  "index_first xs = (case xs of [] \<Rightarrow> Inl IndexError | x # _ \<Rightarrow> Inr x)"

definition index_last :: "'a list \<Rightarrow> py_error + 'a" where
  "index_last xs = (if xs = [] then Inl IndexError else Inr (last xs))"

text \<open>Sequencing of two computations that may raise.\<close>

definition bind :: "py_error + 'a \<Rightarrow> ('a \<Rightarrow> py_error + 'b) \<Rightarrow> py_error + 'b" where
  "bind m f = (case m of Inl e \<Rightarrow> Inl e | Inr x \<Rightarrow> f x)"

section \<open>Regular expressions (module re)\<close>

text \<open>
  The patterns of the analyzer use literals, character classes, \<open>?\<close>, \<open>+\<close>, \<open>*?\<close> and
  \<open>{m,n}\<close> on a single character class, groups, alternation and the anchors \<open>^\<close> and \<open>$\<close>.
  A pattern is an abstract syntax tree; the matcher returns every way the pattern can
  match at a position, in the order in which the backtracking matcher of \<open>re\<close> tries
  them, so that the head of the list is the match \<open>re\<close> reports.
\<close>

datatype citem = Ch char | Rg char char | Digit | Space

fun citem_has :: "citem \<Rightarrow> char \<Rightarrow> bool" where
  "citem_has (Ch a) c = (c = a)"
| "citem_has (Rg a b) c = (code a \<le> code c \<and> code c \<le> code b)"
| "citem_has Digit c = is_digit c"
| "citem_has Space c = is_space c"

text \<open>\<open>Dot\<close> is \<open>.\<close> (any character but a newline); \<open>Neg\<close> is a negated class \<open>[^...]\<close>.\<close>

datatype cset = Dot | Pos "citem list" | Neg "citem list"

text \<open>The flag is \<open>re.IGNORECASE\<close>.\<close>

definition items_have :: "bool \<Rightarrow> citem list \<Rightarrow> char \<Rightarrow> bool" where
  "items_have ic its c =
     list_ex (\<lambda>i. citem_has i c \<or> (ic \<and> (citem_has i (lower_chr c) \<or> citem_has i (upper_chr c)))) its"

fun cset_has :: "bool \<Rightarrow> cset \<Rightarrow> char \<Rightarrow> bool" where
  "cset_has ic Dot c = (c \<noteq> CHR 0x0A)"
| "cset_has ic (Pos its) c = items_have ic its c"
| "cset_has ic (Neg its) c = (\<not> items_have ic its c)"

datatype rx =
    Eps
  | One cset
  | Seq rx rx
  | Alt rx rx
  | Opt rx
  | Plus cset
  | LazyStar cset
  | Rep cset nat nat
  | Grp nat rx
  | Bol
  | Eol

text \<open>A literal string, and a sequence of patterns.\<close>

definition lit :: "string \<Rightarrow> rx" where
  "lit s = foldr (\<lambda>c r. Seq (One (Pos [Ch c])) r) s Eps"

definition seqs :: "rx list \<Rightarrow> rx" where
  "seqs rs = foldr Seq rs Eps"

text \<open>
  A matcher state: the position reached, the text still to read, and the groups
  captured so far (the latest capture of a group first).
\<close>

type_synonym mstate = "nat \<times> string \<times> (nat \<times> string) list"

definition run :: "bool \<Rightarrow> cset \<Rightarrow> string \<Rightarrow> nat" where
  "run ic cs s = length (takeWhile (cset_has ic cs) s)"

fun rx_step :: "bool \<Rightarrow> rx \<Rightarrow> mstate \<Rightarrow> mstate list" where
  "rx_step ic Eps st = [st]"
| "rx_step ic (One cs) (p, s, g) =
     (case s of [] \<Rightarrow> [] | c # t \<Rightarrow> if cset_has ic cs c then [(Suc p, t, g)] else [])"
| "rx_step ic (Seq a b) st = concat (map (rx_step ic b) (rx_step ic a st))"
| "rx_step ic (Alt a b) st = rx_step ic a st @ rx_step ic b st"
| "rx_step ic (Opt a) st = rx_step ic a st @ [st]"
| "rx_step ic (Plus cs) (p, s, g) =
     map (\<lambda>k. (p + k, drop k s, g)) (rev [1..<Suc (run ic cs s)])"
| "rx_step ic (LazyStar cs) (p, s, g) =
     map (\<lambda>k. (p + k, drop k s, g)) [0..<Suc (run ic cs s)]"
| "rx_step ic (Rep cs lo hi) (p, s, g) =
     map (\<lambda>k. (p + k, drop k s, g)) (rev [lo..<Suc (min hi (run ic cs s))])"
| "rx_step ic (Grp i a) (p, s, g) =
     map (\<lambda>(p', s', g'). (p', s', (i, take (p' - p) s) # g')) (rx_step ic a (p, s, g))"
| "rx_step ic Bol (p, s, g) = (if p = 0 then [(p, s, g)] else [])"
| "rx_step ic Eol (p, s, g) = (if s = [] \<or> s = [CHR 0x0A] then [(p, s, g)] else [])"

text \<open>A match object: \<open>m.group(i)\<close> is None for a group that did not take part.\<close>

type_synonym rmatch = "(nat \<times> string) list"

definition group :: "rmatch \<Rightarrow> nat \<Rightarrow> string option" where
  "group m i = map_of m i"

text \<open>\<open>re.match\<close>: the pattern is tried at the start of the text only.\<close>

definition re_match :: "bool \<Rightarrow> rx \<Rightarrow> string \<Rightarrow> rmatch option" where
  "re_match ic r s =
     (case rx_step ic r (0, s, []) of [] \<Rightarrow> None | (p, t, g) # _ \<Rightarrow> Some g)"

text \<open>\<open>re.search\<close>: the leftmost position at which the pattern matches.\<close>

fun search_from :: "bool \<Rightarrow> rx \<Rightarrow> nat \<Rightarrow> string \<Rightarrow> rmatch option" where
  "search_from ic r p [] =
     (case rx_step ic r (p, [], []) of [] \<Rightarrow> None | (q, t, g) # _ \<Rightarrow> Some g)"
| "search_from ic r p (c # cs) =
     (case rx_step ic r (p, c # cs, []) of
        [] \<Rightarrow> search_from ic r (Suc p) cs
      | (q, t, g) # _ \<Rightarrow> Some g)"

definition re_search :: "bool \<Rightarrow> rx \<Rightarrow> string \<Rightarrow> rmatch option" where
  "re_search ic r s = search_from ic r 0 s"

text \<open>\<open>len(m.groups())\<close>: the number of groups of the pattern.\<close>

fun ngroups :: "rx \<Rightarrow> nat" where
  "ngroups (Seq a b) = ngroups a + ngroups b"
| "ngroups (Alt a b) = ngroups a + ngroups b"
| "ngroups (Opt a) = ngroups a"
| "ngroups (Grp i a) = Suc (ngroups a)"
| "ngroups r = 0"

section \<open>The pattern catalogues of SparkLogAnalyzer\<close>

definition nonspace :: cset where
  "nonspace = Neg [Space]"

definition host_chars :: cset where
  "host_chars = Neg [Space, Ch CHR '':'']"

definition digits :: rx where
  "digits = Plus (Pos [Digit])"

definition alnum :: cset where
  "alnum = Pos [Rg CHR ''a'' CHR ''z'', Rg CHR ''A'' CHR ''Z'', Rg CHR ''0'' CHR ''9'']"

definition colon_space :: rx where
  "colon_space = Plus (Pos [Ch CHR '':'', Space])"

text \<open>\<open>scheme://([^\s:]+):?(\d+)?\<close>\<close>

definition url_host_port :: "rx \<Rightarrow> rx" where
  "url_host_port scheme =
     seqs [scheme, lit ''://'', Grp 1 (Plus host_chars),
           Opt (One (Pos [Ch CHR '':''])), Opt (Grp 2 digits)]"

text \<open>\<open>word[:\s]+([^\s:]+):(\d+)\<close>\<close>

definition word_host_port :: "string \<Rightarrow> rx" where
  "word_host_port w =
     seqs [lit w, colon_space, Grp 1 (Plus host_chars), lit '':'', Grp 2 digits]"

text \<open>\<open>([a-zA-Z0-9]+)\.service\.core\.windows\.net\<close>\<close>

definition azure_suffix :: "string \<Rightarrow> rx" where
  "azure_suffix service =
     seqs [Grp 1 (Plus alnum), lit ''.'', lit service, lit ''.core.windows.net'']"

text \<open>CONNECTION_PATTERNS, in the order of the source.\<close>

definition CONNECTION_PATTERNS :: "rx list" where
  \<open>CONNECTION_PATTERNS =
    [ \<comment> \<open>\<open>jdbc:.*?://([^:]+):(\d+)\<close>\<close>
      seqs [lit ''jdbc:'', LazyStar Dot, lit ''://'', Grp 1 (Plus (Neg [Ch CHR '':''])),
            lit '':'', Grp 2 digits],
      \<comment> \<open>\<open>https?://([^\s:]+):?(\d+)?\<close>\<close>
      url_host_port (seqs [lit ''http'', Opt (lit ''s'')]),
      \<comment> \<open>\<open>connecting to ([^\s]+):(\d+)\<close>\<close>
      seqs [lit ''connecting to '', Grp 1 (Plus nonspace), lit '':'', Grp 2 digits],
      \<comment> \<open>\<open>established connection to ([^\s]+):(\d+)\<close>\<close>
      seqs [lit ''established connection to '', Grp 1 (Plus nonspace), lit '':'', Grp 2 digits],
      \<comment> \<open>\<open>remote address[:\s]+([^\s:]+):(\d+)\<close>\<close>
      word_host_port ''remote address'',
      \<comment> \<open>\<open>destination[:\s]+([^\s:]+):(\d+)\<close>\<close>
      word_host_port ''destination'',
      \<comment> \<open>\<open>target[:\s]+([^\s:]+):(\d+)\<close>\<close>
      word_host_port ''target'',
      \<comment> \<open>\<open>s3[a]?://([^\s/]+)\<close>\<close>
      seqs [lit ''s3'', Opt (One (Pos [Ch CHR ''a''])), lit ''://'',
            Grp 1 (Plus (Neg [Space, Ch CHR ''/'']))],
      \<comment> \<open>\<open>wasbs?://([^\s@]+)@([^\s.]+)\<close>\<close>
      seqs [lit ''wasb'', Opt (lit ''s''), lit ''://'', Grp 1 (Plus (Neg [Space, Ch CHR ''@''])),
            lit ''@'', Grp 2 (Plus (Neg [Space, Ch CHR ''.'']))],
      \<comment> \<open>\<open>gs://([^\s/]+)\<close>\<close>
      seqs [lit ''gs://'', Grp 1 (Plus (Neg [Space, Ch CHR ''/'']))],
      \<comment> \<open>\<open>mongodb://([^\s:]+):?(\d+)?\<close>\<close>
      url_host_port (lit ''mongodb''),
      \<comment> \<open>\<open>kafka[:\s]+([^\s:]+):(\d+)\<close>\<close>
      word_host_port ''kafka'',
      \<comment> \<open>\<open>ftp://([^\s:]+):?(\d+)?\<close>\<close>
      url_host_port (lit ''ftp''),
      \<comment> \<open>\<open>sftp://([^\s:]+):?(\d+)?\<close>\<close>
      url_host_port (lit ''sftp''),
      \<comment> \<open>\<open>([a-zA-Z0-9]+)\.dfs\.core\.windows\.net\<close>\<close>
      azure_suffix ''dfs'',
      \<comment> \<open>\<open>([a-zA-Z0-9]+)\.blob\.core\.windows\.net\<close>\<close>
      azure_suffix ''blob'',
      \<comment> \<open>\<open>([a-zA-Z0-9]+)\.table\.core\.windows\.net\<close>\<close>
      azure_suffix ''table'',
      \<comment> \<open>\<open>([a-zA-Z0-9]+)\.queue\.core\.windows\.net\<close>\<close>
      azure_suffix ''queue'',
      \<comment> \<open>\<open>abfss?://[^@]+@([^\s.]+)\.dfs\.core\.windows\.net\<close>\<close>
      seqs [lit ''abfs'', Opt (lit ''s''), lit ''://'', Plus (Neg [Ch CHR ''@'']), lit ''@'',
            Grp 1 (Plus (Neg [Space, Ch CHR ''.''])), lit ''.dfs.core.windows.net''] ]\<close>

text \<open>The anchored patterns and the common words of \<open>is_trusted_host\<close>.\<close>

definition hex_lower :: cset where
  "hex_lower = Pos [Rg CHR ''a'' CHR ''f'', Rg CHR ''0'' CHR ''9'']"

text \<open>\<open>[a-f0-9]{8}-[a-f0-9]{4}-[a-f0-9]{4}-[a-f0-9]{4}-[a-f0-9]{12}\<close>\<close>

definition uuid_body :: rx where
  "uuid_body =
     seqs [Rep hex_lower 8 8, lit ''-'', Rep hex_lower 4 4, lit ''-'', Rep hex_lower 4 4,
           lit ''-'', Rep hex_lower 4 4, lit ''-'', Rep hex_lower 12 12]"

definition uuid_pattern :: rx where
  "uuid_pattern = seqs [Bol, uuid_body, Eol]"

text \<open>\<open>^spark\d+triprodeus$\<close>\<close>

definition spark_pattern :: rx where
  "spark_pattern = seqs [Bol, lit ''spark'', digits, lit ''triprodeus'', Eol]"

text \<open>\<open>^[a-z0-9]{20,22}$\<close>\<close>

definition temp_storage_pattern :: rx where
  "temp_storage_pattern =
     seqs [Bol, Rep (Pos [Rg CHR ''a'' CHR ''z'', Rg CHR ''0'' CHR ''9'']) 20 22, Eol]"

definition common_words :: "string list" where
  "common_words =
     [''dev'', ''prod'', ''test'', ''msft'', ''east'', ''west'', ''central'', ''stage'', ''stag'']"

text \<open>
  The pattern of the line-level check in \<open>analyze_single_log_file\<close>:
  \<open>abfss?://(uuid)@[a-zA-Z0-9]+\.dfs\.core\.windows\.net\<close>
\<close>

definition abfs_pattern :: rx where
  "abfs_pattern =
     seqs [lit ''abfs'', Opt (lit ''s''), lit ''://'', Grp 1 uuid_body, lit ''@'', Plus alnum,
           lit ''.dfs.core.windows.net'']"

definition DEFAULT_TRUSTED_DOMAINS :: "string list" where
  "DEFAULT_TRUSTED_DOMAINS =
    [''pbidedicated.windows.net'',
     ''analysis.windows.net'',
     ''api.fabric.microsoft.com'',
     ''exec.eastus.notebook.windows.net'',
     ''exec.westus.notebook.windows.net'',
     ''exec.northeurope.notebook.windows.net'',
     ''exec.westeurope.notebook.windows.net'',
     ''onelake.dfs.fabric.microsoft.com'',
     ''sparkui.fabric.microsoft.com'',
     ''storage.azure.com'',
     ''tokenservice1.eastus.trident.azuresynapse.net'',
     ''tokenservice1.westus.trident.azuresynapse.net'',
     ''tokenservice1.northeurope.trident.azuresynapse.net'',
     ''tokenservice1.westeurope.trident.azuresynapse.net'',
     ''operation-service'',
     ''vm-'',
     ''localhost'',
     ''127.0.0.1'',
     ''::1'']"

section \<open>urllib.parse\<close>

text \<open>
  \<open>urlparse\<close> is the standard library's (CPython 3.12, \<open>urllib/parse.py\<close>). The analyzer
  reads the \<open>netloc\<close> and the \<open>hostname\<close> of the result, which \<open>urlsplit\<close> computes. Two
  checks of \<open>urlsplit\<close> depend on library tables that are not modelled (IP address syntax,
  Unicode normalisation); they are parameters, and every result below holds for each
  value of them:
  \<^item> \<open>bracketed_netloc_ok netloc\<close>: \<open>_check_bracketed_netloc(netloc)\<close> does not raise;
  \<^item> \<open>nfkc_ok netloc\<close>: \<open>_checknetloc(netloc)\<close> does not raise on a non-ASCII netloc.
\<close>

record urllib =
  bracketed_netloc_ok :: "string \<Rightarrow> bool"
  nfkc_ok :: "string \<Rightarrow> bool"

record split_result =
  scheme :: string
  netloc :: string
  path :: string
  query :: string
  fragment :: string

definition scheme_char :: "char \<Rightarrow> bool" where
  "scheme_char c = (is_alpha c \<or> is_digit c \<or> c = CHR ''+'' \<or> c = CHR ''-'' \<or> c = CHR ''.'')"

text \<open>\<open>_WHATWG_C0_CONTROL_OR_SPACE\<close>: the codes 0 to 32.\<close>

definition c0_control_or_space :: "char \<Rightarrow> bool" where
  "c0_control_or_space c = (code c \<le> 32)"

text \<open>\<open>_UNSAFE_URL_BYTES_TO_REMOVE\<close>: tab, CR and LF.\<close>

definition unsafe_url_byte :: "char \<Rightarrow> bool" where
  "unsafe_url_byte c = (c = CHR 0x09 \<or> c = CHR 0x0D \<or> c = CHR 0x0A)"

definition is_ascii :: "string \<Rightarrow> bool" where
  "is_ascii s = list_all (\<lambda>c. code c < 128) s"

text \<open>\<open>_splitnetloc(url, 2)\<close>: the text after \<open>//\<close> up to the first of \<open>/\<close>, \<open>?\<close>, \<open>#\<close>.\<close>

definition netloc_delim :: "char \<Rightarrow> bool" where
  "netloc_delim c = (c = CHR ''/'' \<or> c = CHR ''?'' \<or> c = CHR ''#'')"

definition splitnetloc :: "string \<Rightarrow> string \<times> string" where
  "splitnetloc url =
     (takeWhile (\<lambda>c. \<not> netloc_delim c) (drop 2 url),
      dropWhile (\<lambda>c. \<not> netloc_delim c) (drop 2 url))"

text \<open>The scheme is split off when the text before the first colon is a scheme name.\<close>

definition split_scheme :: "string \<Rightarrow> string \<times> string" where
  "split_scheme url =
     (case partition_chr CHR '':'' url of
        (name, found, rest) \<Rightarrow>
          if found \<and> name \<noteq> [] \<and> code (hd name) < 128 \<and> is_alpha (hd name)
             \<and> list_all scheme_char name
          then (lower name, rest)
          else ([], url))"

definition urlsplit :: "urllib \<Rightarrow> string \<Rightarrow> py_error + split_result" where
  "urlsplit L url0 =
     (let url1 = filter (\<lambda>c. \<not> unsafe_url_byte c) (lstrip_by c0_control_or_space url0);
          (sch, url2) = split_scheme url1;
          (nl, url3) = (if take 2 url2 = ''//'' then splitnetloc url2 else ([], url2))
      in if take 2 url2 = ''//''
            \<and> ((CHR ''['' \<in> set nl \<and> CHR '']'' \<notin> set nl) \<or> (CHR '']'' \<in> set nl \<and> CHR ''['' \<notin> set nl))
         then Inl ValueError
         else if take 2 url2 = ''//'' \<and> CHR ''['' \<in> set nl \<and> CHR '']'' \<in> set nl
                 \<and> \<not> bracketed_netloc_ok L nl
         then Inl ValueError
         else
           (case partition_chr CHR ''#'' url3 of
              (url4, _, frag) \<Rightarrow>
                (case partition_chr CHR ''?'' url4 of
                   (url5, _, qry) \<Rightarrow>
                     if nl \<noteq> [] \<and> \<not> is_ascii nl \<and> \<not> nfkc_ok L nl
                     then Inl ValueError
                     else Inr \<lparr>scheme = sch, netloc = nl, path = url5, query = qry,
                               fragment = frag\<rparr>)))"

text \<open>
  \<open>urlparse\<close> further splits the parameters off the path; scheme, netloc, query and
  fragment are those of \<open>urlsplit\<close>.
\<close>

definition urlparse :: "urllib \<Rightarrow> string \<Rightarrow> py_error + split_result" where
  "urlparse L url = urlsplit L url"

text \<open>The property \<open>hostname\<close> (through \<open>_hostinfo\<close>); None when no host name is found.\<close>

definition hostinfo_name :: "string \<Rightarrow> string" where
  "hostinfo_name nl =
     (case rpartition_chr CHR ''@'' nl of
        (_, _, hostinfo) \<Rightarrow>
          (case partition_chr CHR ''['' hostinfo of
             (_, have_open_br, bracketed) \<Rightarrow>
               if have_open_br then fst (partition_chr CHR '']'' bracketed)
               else fst (partition_chr CHR '':'' hostinfo)))"

definition hostname :: "split_result \<Rightarrow> string option" where
  "hostname parsed =
     (let hn = hostinfo_name (netloc parsed)
      in if hn = [] then None
         else (case partition_chr CHR ''%'' hn of
                 (name, percent, zone) \<Rightarrow>
                   Some (lower name @ (if percent then ''%'' else []) @ zone)))"

section \<open>SparkLogAnalyzer: host names and trust\<close>

definition PUNCT :: string where
  "PUNCT = [CHR '' '', CHR '','', CHR ''('', CHR '')'', CHR 0x22, CHR 0x27]"

text \<open>
  The \<open>try\<close> block of \<open>_extract_hostname\<close>: the result of the \<open>return\<close>, or None when
  \<open>urlparse\<close> or the expression raises and the bare \<open>except\<close> passes.
\<close>

definition parse_url_host :: "urllib \<Rightarrow> string \<Rightarrow> string option" where
  "parse_url_host L host_input =
     (case bind (urlparse L host_input)
             (\<lambda>parsed. case hostname parsed of
                          Some h \<Rightarrow> Inr h
                        | None \<Rightarrow> index_first (split_chr CHR '':'' (netloc parsed))) of
        Inl e \<Rightarrow> None
      | Inr h \<Rightarrow> Some h)"

definition extract_hostname :: "urllib \<Rightarrow> string \<Rightarrow> py_error + string" where
  "extract_hostname L host_input0 =
     (if host_input0 = [] then Inr []
      else
        let host_input = strip PUNCT host_input0;
            returned = (if contains ''://'' host_input then parse_url_host L host_input else None)
        in case returned of
             Some h \<Rightarrow> Inr h
           | None \<Rightarrow>
               bind (if contains ''/'' host_input
                     then index_first (split_chr CHR ''/'' host_input) else Inr host_input)
               (\<lambda>h1. bind (if contains ''?'' h1
                           then index_first (split_chr CHR ''?'' h1) else Inr h1)
               (\<lambda>h2. bind (if contains '':'' h2 \<and> \<not> count_list h2 CHR '':'' > 1
                           then index_first (split_chr CHR '':'' h2) else Inr h2)
               (\<lambda>h3. Inr (strip (PUNCT @ ''.'') h3)))))"

text \<open>The loop over \<open>self.trusted_domains\<close>.\<close>

fun trusted_domain_match :: "string \<Rightarrow> string list \<Rightarrow> bool" where
  "trusted_domain_match host_lower [] = False"
| "trusted_domain_match host_lower (trusted_domain # rest) =
     (let trusted_lower = lower trusted_domain
      in if host_lower = trusted_lower then True
         else if suffix (''.'' @ trusted_lower) host_lower \<or> suffix trusted_lower host_lower
         then True
         else if suffix ''-'' trusted_lower \<and> prefix trusted_lower host_lower then True
         else trusted_domain_match host_lower rest)"

text \<open>The check for workspace-based temp storage: the container before \<open>@\<close> is a UUID.\<close>

definition workspace_container :: "string \<Rightarrow> py_error + bool" where
  "workspace_container host_lower =
     (if contains ''.dfs.core.windows.net'' host_lower \<and> contains ''@'' host_lower
      then bind (index_first (split_chr CHR ''@'' host_lower))
           (\<lambda>container_part. bind (index_last (split_chr CHR ''@'' host_lower))
           (\<lambda>hostname_part.
              let clean_container =
                    replace_del ''abfs://'' (replace_del ''abfss://'' container_part)
              in Inr (re_match False uuid_pattern clean_container \<noteq> None)))
      else Inr False)"

definition is_trusted_host :: "urllib \<Rightarrow> string list \<Rightarrow> string \<Rightarrow> py_error + bool" where
  "is_trusted_host L trusted_domains host =
     bind (extract_hostname L host)
     (\<lambda>actual_host.
        if actual_host = [] then Inr False
        else
          let host_lower = lower actual_host
          in bind (workspace_container host_lower)
             (\<lambda>workspace.
                if workspace then Inr True
                else
                  let hostname_base =
                        (if contains ''.dfs.core.windows.net'' host_lower
                         then replace_del ''.dfs.core.windows.net'' host_lower
                         else host_lower)
                  in if re_match False spark_pattern hostname_base \<noteq> None then Inr True
                     else if length hostname_base \<ge> 20
                             \<and> re_match False temp_storage_pattern hostname_base \<noteq> None
                             \<and> \<not> list_ex (\<lambda>word. contains word hostname_base) common_words
                     then Inr True
                     else Inr (trusted_domain_match host_lower trusted_domains)))"

section \<open>SparkLogAnalyzer: scanning one log file\<close>

text \<open>PIP_PATTERNS and LOGGING_PATTERNS, in the order of the source.\<close>

definition PIP_PATTERNS :: "rx list" where
  \<open>PIP_PATTERNS =
    [ \<comment> \<open>\<open>pip install ([^\s]+)\<close>\<close>
      seqs [lit ''pip install '', Grp 1 (Plus nonspace)],
      \<comment> \<open>\<open>pip3 install ([^\s]+)\<close>\<close>
      seqs [lit ''pip3 install '', Grp 1 (Plus nonspace)],
      \<comment> \<open>\<open>python -m pip install ([^\s]+)\<close>\<close>
      seqs [lit ''python -m pip install '', Grp 1 (Plus nonspace)],
      \<comment> \<open>\<open>python3 -m pip install ([^\s]+)\<close>\<close>
      seqs [lit ''python3 -m pip install '', Grp 1 (Plus nonspace)],
      \<comment> \<open>\<open>Installing collected packages: ([^\n]+)\<close>\<close>
      seqs [lit ''Installing collected packages: '', Grp 1 (Plus (Neg [Ch (CHR 0x0A)]))],
      \<comment> \<open>\<open>Successfully installed ([^\n]+)\<close>\<close>
      seqs [lit ''Successfully installed '', Grp 1 (Plus (Neg [Ch (CHR 0x0A)]))] ]\<close>

definition LOGGING_PATTERNS :: "rx list" where
  \<open>LOGGING_PATTERNS =
    [ \<comment> \<open>\<open>log4j|logging\.(?:disable|off|level)\<close>\<close>
      Alt (lit ''log4j'')
          (seqs [lit ''logging.'', Alt (lit ''disable'') (Alt (lit ''off'') (lit ''level''))]),
      \<comment> \<open>\<open>rootLogger|logger\.level\<close>\<close>
      Alt (lit ''rootLogger'') (lit ''logger.level''),
      \<comment> \<open>\<open>spark\.sql\.adaptive\.logLevel\<close>\<close>
      lit ''spark.sql.adaptive.logLevel'',
      \<comment> \<open>\<open>spark\.log\.level\<close>\<close>
      lit ''spark.log.level'' ]\<close>

text \<open>
  The three kinds of match records. \<open>pattern_matched\<close> is \<open>pattern.pattern\<close>; the patterns
  of a catalogue are pairwise different, and the record holds the pattern itself.
\<close>

record connection_info =
  line_number :: nat
  host :: "string option"
  port :: "string option"
  raw_line :: string
  pattern_matched :: rx

record pip_info =
  pip_line_number :: nat
  package :: "string option"
  pip_raw_line :: string
  pip_pattern_matched :: rx

record logging_info =
  log_line_number :: nat
  log_raw_line :: string
  log_pattern_matched :: rx

text \<open>The result dictionary; the key \<open>error\<close> is absent when \<open>error\<close> is None.\<close>

record analysis =
  log_file :: string
  connections :: "connection_info list"
  external_connections :: "connection_info list"
  trusted_connections :: "connection_info list"
  pip_installs :: "pip_info list"
  logging_config :: "logging_info list"
  file_exists :: bool
  file_size :: nat
  error :: "py_error option"

text \<open>
  A file of the file system: what \<open>os.path.getsize\<close> returns or raises, the text that
  reading the file in text mode delivers (decoding errors ignored), and the exception, if
  any, that \<open>open\<close> or the reading raises once that text has been delivered. A path that
  does not exist has no file.
\<close>

record log_source =
  fsize :: "py_error + nat"
  content :: string
  read_error :: "py_error option"

type_synonym filesystem = "string \<Rightarrow> log_source option"

text \<open>Iterating over a text file: the lines, each with its newline.\<close>

fun readlines :: "string \<Rightarrow> string list" where
  "readlines [] = []"
| "readlines (c # cs) =
     (if c = CHR 0x0A then [c] # readlines cs
      else (case readlines cs of
              [] \<Rightarrow> [[c]]
            | l # ls \<Rightarrow> (c # l) # ls))"

text \<open>The check of the raw line for an ABFS URL with a workspace UUID as container.\<close>

definition abfs_workspace_line :: "string \<Rightarrow> bool" where
  "abfs_workspace_line line =
     (let raw_line_lower = lower line
      in contains ''abfs'' raw_line_lower \<and> contains ''@'' raw_line_lower
         \<and> contains ''.dfs.core.windows.net'' raw_line_lower
         \<and> re_search False abfs_pattern raw_line_lower \<noteq> None)"

text \<open>\<open>self.is_trusted_host(connection_info['host'])\<close>; None takes the branch of the empty string.\<close>

definition host_token :: "connection_info \<Rightarrow> string" where
  "host_token ci = (case host ci of None \<Rightarrow> [] | Some h \<Rightarrow> h)"

text \<open>The dictionary \<open>connection_info\<close> built for a match of a pattern on a line.\<close>

definition connection_record :: "nat \<Rightarrow> string \<Rightarrow> rx \<Rightarrow> rmatch \<Rightarrow> connection_info" where
  "connection_record n line pattern m =
     \<lparr>line_number = n, host = group m 1,
      port = (if ngroups pattern > 1 then group m 2 else None),
      raw_line = strip_ws line, pattern_matched = pattern\<rparr>"

text \<open>
  \<open>is_trusted\<close>: the check of the raw line first, and \<open>is_trusted_host\<close> when it does not
  mark the connection as trusted.
\<close>

definition is_trusted_connection ::
  "urllib \<Rightarrow> string list \<Rightarrow> string \<Rightarrow> connection_info \<Rightarrow> py_error + bool"
where
  "is_trusted_connection L D line info =
     (if abfs_workspace_line line then Inr True else is_trusted_host L D (host_token info))"

text \<open>
  The loop over the connection patterns for one line. An exception leaves the loop with
  the result as it is at that moment.
\<close>

fun check_connections ::
  "urllib \<Rightarrow> string list \<Rightarrow> nat \<Rightarrow> string \<Rightarrow> rx list \<Rightarrow> analysis \<Rightarrow> analysis \<times> py_error option"
where
  "check_connections L D n line [] result = (result, None)"
| "check_connections L D n line (pattern # rest) result =
     (case re_search True pattern line of
        None \<Rightarrow> check_connections L D n line rest result
      | Some m \<Rightarrow>
          let info = connection_record n line pattern m;
              result1 = result\<lparr>connections := connections result @ [info]\<rparr>
          in case is_trusted_connection L D line info of
               Inl e \<Rightarrow> (result1, Some e)
             | Inr is_trusted \<Rightarrow>
                 check_connections L D n line rest
                   (if is_trusted
                    then result1\<lparr>trusted_connections := trusted_connections result1 @ [info]\<rparr>
                    else result1\<lparr>external_connections := external_connections result1 @ [info]\<rparr>))"

fun check_pip :: "nat \<Rightarrow> string \<Rightarrow> rx list \<Rightarrow> analysis \<Rightarrow> analysis" where
  "check_pip n line [] result = result"
| "check_pip n line (pattern # rest) result =
     (case re_search True pattern line of
        None \<Rightarrow> check_pip n line rest result
      | Some m \<Rightarrow>
          check_pip n line rest
            (result\<lparr>pip_installs := pip_installs result @
               [\<lparr>pip_line_number = n, package = group m 1, pip_raw_line = strip_ws line,
                 pip_pattern_matched = pattern\<rparr>]\<rparr>))"

fun check_logging :: "nat \<Rightarrow> string \<Rightarrow> rx list \<Rightarrow> analysis \<Rightarrow> analysis" where
  "check_logging n line [] result = result"
| "check_logging n line (pattern # rest) result =
     (case re_search True pattern line of
        None \<Rightarrow> check_logging n line rest result
      | Some m \<Rightarrow>
          check_logging n line rest
            (result\<lparr>logging_config := logging_config result @
               [\<lparr>log_line_number = n, log_raw_line = strip_ws line,
                 log_pattern_matched = pattern\<rparr>]\<rparr>))"

text \<open>The loop over the lines, numbered from \<open>n\<close>.\<close>

fun scan_lines ::
  "urllib \<Rightarrow> string list \<Rightarrow> nat \<Rightarrow> string list \<Rightarrow> analysis \<Rightarrow> analysis \<times> py_error option"
where
  "scan_lines L D n [] result = (result, None)"
| "scan_lines L D n (line # rest) result =
     (case check_connections L D n line CONNECTION_PATTERNS result of
        (result1, Some e) \<Rightarrow> (result1, Some e)
      | (result1, None) \<Rightarrow>
          scan_lines L D (Suc n) rest
            (check_logging n line LOGGING_PATTERNS (check_pip n line PIP_PATTERNS result1)))"

definition analyze_single_log_file ::
  "urllib \<Rightarrow> string list \<Rightarrow> filesystem \<Rightarrow> string \<Rightarrow> analysis"
where
  "analyze_single_log_file L D fs log_file_path =
     (let result = \<lparr>log_file = log_file_path, connections = [], external_connections = [],
                     trusted_connections = [], pip_installs = [], logging_config = [],
                     file_exists = (fs log_file_path \<noteq> None), file_size = 0, error = None\<rparr>
      in case fs log_file_path of
           None \<Rightarrow> result
         | Some f \<Rightarrow>
             (case fsize f of
                Inl e \<Rightarrow> result\<lparr>error := Some e\<rparr>
              | Inr sz \<Rightarrow>
                  (case scan_lines L D 1 (readlines (content f)) (result\<lparr>file_size := sz\<rparr>) of
                     (result1, Some e) \<Rightarrow> result1\<lparr>error := Some e\<rparr>
                   | (result1, None) \<Rightarrow>
                       (case read_error f of
                          Some e \<Rightarrow> result1\<lparr>error := Some e\<rparr>
                        | None \<Rightarrow> result1))))"

section \<open>SparkLogAnalyzer: sessions\<close>

text \<open>A parsed JSON document; an object is a dictionary with its keys in order.\<close>

datatype json =
    JNull
  | JBool bool
  | JNum int
  | JStr string
  | JArr "json list"
  | JObj "(string \<times> json) list"

text \<open>\<open>d.get(key, default)\<close>; AttributeError when \<open>d\<close> is not a dictionary.\<close>

definition json_get :: "json \<Rightarrow> string \<Rightarrow> json \<Rightarrow> py_error + json" where
  "json_get d key dflt =
     (case d of
        JObj kvs \<Rightarrow> (case map_of kvs key of None \<Rightarrow> Inr dflt | Some v \<Rightarrow> Inr v)
      | _ \<Rightarrow> Inl AttributeError)"

text \<open>
  The values that \<open>len(v)\<close> and a \<open>for\<close> loop over \<open>v\<close> accept: the items of a list, the
  characters of a string, the keys of a dictionary; TypeError otherwise.
\<close>

definition json_iter :: "json \<Rightarrow> py_error + json list" where
  "json_iter v =
     (case v of
        JArr xs \<Rightarrow> Inr xs
      | JStr s \<Rightarrow> Inr (map (\<lambda>c. JStr [c]) s)
      | JObj kvs \<Rightarrow> Inr (map (\<lambda>kv. JStr (fst kv)) kvs)
      | _ \<Rightarrow> Inl TypeError)"

record session_info =
  notebook_name :: json
  notebook_id :: json
  workspace_name :: json
  workspace_id :: json
  spark_application_id :: json
  livy_id :: json
  app_url :: json
  temp_directory :: json
  download_timestamp :: json

record session_result =
  session_info :: session_info
  log_analyses :: "(string \<times> analysis) list"

definition Unknown :: json where
  "Unknown = JStr ''Unknown''"

definition make_session_info :: "json \<Rightarrow> py_error + session_info" where
  "make_session_info session =
     bind (json_get session ''notebook_name'' Unknown) (\<lambda>v1.
     bind (json_get session ''notebook_id'' Unknown) (\<lambda>v2.
     bind (json_get session ''workspace_name'' Unknown) (\<lambda>v3.
     bind (json_get session ''workspace_id'' Unknown) (\<lambda>v4.
     bind (json_get session ''spark_application_id'' Unknown) (\<lambda>v5.
     bind (json_get session ''livy_id'' Unknown) (\<lambda>v6.
     bind (json_get session ''app_url'' Unknown) (\<lambda>v7.
     bind (json_get session ''temp_directory'' Unknown) (\<lambda>v8.
     bind (json_get session ''download_timestamp'' Unknown) (\<lambda>v9.
       Inr \<lparr>notebook_name = v1, notebook_id = v2, workspace_name = v3, workspace_id = v4,
            spark_application_id = v5, livy_id = v6, app_url = v7, temp_directory = v8,
            download_timestamp = v9\<rparr>)))))))))"

text \<open>The log type of a downloaded file, by substring of its path.\<close>

definition log_type_of :: "string \<Rightarrow> string" where
  "log_type_of file_path =
     (if contains ''livy_logs'' file_path then ''livy''
      else if contains ''stdout'' file_path then ''stdout''
      else if contains ''stderr'' file_path then ''stderr''
      else ''unknown'')"

text \<open>
  The loop over \<open>downloaded_files\<close>. An entry that is not a string raises TypeError (in the
  substring test or in \<open>os.path.basename\<close>). \<open>d[log_type] = analysis\<close> replaces the value of
  a key that is present and appends a new key otherwise.
\<close>

fun analyze_files ::
  "urllib \<Rightarrow> string list \<Rightarrow> filesystem \<Rightarrow> json list \<Rightarrow> (string \<times> analysis) list
     \<Rightarrow> py_error + (string \<times> analysis) list"
where
  "analyze_files L D fs [] d = Inr d"
| "analyze_files L D fs (JStr file_path # rest) d =
     analyze_files L D fs rest
       (AList.update (log_type_of file_path) (analyze_single_log_file L D fs file_path) d)"
| "analyze_files L D fs (_ # rest) d = Inl TypeError"

definition analyze_session ::
  "urllib \<Rightarrow> string list \<Rightarrow> filesystem \<Rightarrow> json \<Rightarrow> py_error + session_result"
where
  "analyze_session L D fs session =
     bind (make_session_info session) (\<lambda>info.
     bind (json_get session ''downloaded_files'' (JArr [])) (\<lambda>downloaded_files.
     bind (json_iter downloaded_files) (\<lambda>files.
     bind (analyze_files L D fs files []) (\<lambda>d.
       Inr \<lparr>session_info = info, log_analyses = d\<rparr>))))"

text \<open>
  The loop over \<open>log_summaries\<close>: each session result is appended to
  \<open>self.session_results\<close>; an exception ends the run.
\<close>

fun analyze_sessions ::
  "urllib \<Rightarrow> string list \<Rightarrow> filesystem \<Rightarrow> json list \<Rightarrow> session_result list
     \<Rightarrow> py_error + session_result list"
where
  "analyze_sessions L D fs [] session_results = Inr session_results"
| "analyze_sessions L D fs (session # rest) session_results =
     bind (analyze_session L D fs session)
       (\<lambda>session_result. analyze_sessions L D fs rest (session_results @ [session_result]))"

text \<open>
  What opening and loading the consolidated file gives: the file is missing, reading or
  parsing it raises, or it parses to a JSON value.
\<close>

datatype load_result = NotFound | LoadError | Loaded json

text \<open>
  \<open>analyze_consolidated_logs\<close> on an analyzer whose \<open>session_results\<close> is the last
  argument; \<open>sys.exit(1)\<close> is the exception SystemExit. The result is the new value of
  \<open>self.session_results\<close>, which is also returned.
\<close>

definition analyze_consolidated_logs ::
  "urllib \<Rightarrow> string list \<Rightarrow> filesystem \<Rightarrow> (string \<Rightarrow> load_result) \<Rightarrow> string option
     \<Rightarrow> session_result list \<Rightarrow> py_error + session_result list"
where
  "analyze_consolidated_logs L D fs load consolidated_file_path session_results =
     (case consolidated_file_path of
        None \<Rightarrow> Inl ValueError
      | Some p \<Rightarrow>
          if p = [] then Inl ValueError
          else (case load p of
                  NotFound \<Rightarrow> Inl (SystemExit 1)
                | LoadError \<Rightarrow> Inl (SystemExit 1)
                | Loaded consolidated_data \<Rightarrow>
                    bind (json_get consolidated_data ''log_summaries'' (JArr []))
                      (\<lambda>log_summaries.
                         bind (json_iter log_summaries)
                           (\<lambda>sessions. analyze_sessions L D fs sessions session_results))))"

text \<open>The two connection views. A list is true when it is not empty.\<close>

record external_summary =
  ext_notebook_name :: json
  ext_notebook_id :: json
  ext_livy_id :: json
  ext_workspace_name :: json
  ext_app_url :: json
  ext_total_external_connections :: nat
  ext_total_trusted_connections :: nat
  ext_external_connection_details :: "(string \<times> connection_info list) list"
  ext_trusted_connection_details :: "(string \<times> connection_info list) list"

record outbound_summary =
  out_notebook_name :: json
  out_notebook_id :: json
  out_livy_id :: json
  out_workspace_name :: json
  out_app_url :: json
  out_total_connections :: nat
  out_total_external_connections :: nat
  out_total_trusted_connections :: nat
  out_connection_details :: "(string \<times> connection_info list) list"
  out_external_connection_details :: "(string \<times> connection_info list) list"
  out_trusted_connection_details :: "(string \<times> connection_info list) list"

text \<open>
  The loops over \<open>session['log_analyses'].items()\<close>: whether some analysis has a non-empty
  list under the key, the total length of these lists, and the dictionary of the
  non-empty lists by log type.
\<close>

definition has_any :: "(analysis \<Rightarrow> 'a list) \<Rightarrow> session_result \<Rightarrow> bool" where
  "has_any key session = list_ex (\<lambda>(log_type, a). key a \<noteq> []) (log_analyses session)"

definition total_of :: "(analysis \<Rightarrow> 'a list) \<Rightarrow> session_result \<Rightarrow> nat" where
  "total_of key session = sum_list (map (\<lambda>(log_type, a). length (key a)) (log_analyses session))"

definition details_of ::
  "(analysis \<Rightarrow> 'a list) \<Rightarrow> session_result \<Rightarrow> (string \<times> 'a list) list"
where
  "details_of key session =
     map (\<lambda>(log_type, a). (log_type, key a))
       (filter (\<lambda>(log_type, a). key a \<noteq> []) (log_analyses session))"

definition external_summary_of :: "session_result \<Rightarrow> external_summary" where
  "external_summary_of session =
     \<lparr>ext_notebook_name = notebook_name (session_info session),
      ext_notebook_id = notebook_id (session_info session),
      ext_livy_id = livy_id (session_info session),
      ext_workspace_name = workspace_name (session_info session),
      ext_app_url = app_url (session_info session),
      ext_total_external_connections = total_of external_connections session,
      ext_total_trusted_connections = total_of trusted_connections session,
      ext_external_connection_details = details_of external_connections session,
      ext_trusted_connection_details = details_of trusted_connections session\<rparr>"

definition outbound_summary_of :: "session_result \<Rightarrow> outbound_summary" where
  "outbound_summary_of session =
     \<lparr>out_notebook_name = notebook_name (session_info session),
      out_notebook_id = notebook_id (session_info session),
      out_livy_id = livy_id (session_info session),
      out_workspace_name = workspace_name (session_info session),
      out_app_url = app_url (session_info session),
      out_total_connections = total_of connections session,
      out_total_external_connections = total_of external_connections session,
      out_total_trusted_connections = total_of trusted_connections session,
      out_connection_details = details_of connections session,
      out_external_connection_details = details_of external_connections session,
      out_trusted_connection_details = details_of trusted_connections session\<rparr>"

fun get_sessions_with_external_connections :: "session_result list \<Rightarrow> external_summary list" where
  "get_sessions_with_external_connections [] = []"
| "get_sessions_with_external_connections (session # rest) =
     (if has_any external_connections session
      then external_summary_of session # get_sessions_with_external_connections rest
      else get_sessions_with_external_connections rest)"

fun get_sessions_with_outbound_connections :: "session_result list \<Rightarrow> outbound_summary list" where
  "get_sessions_with_outbound_connections [] = []"
| "get_sessions_with_outbound_connections (session # rest) =
     (if has_any connections session
      then outbound_summary_of session # get_sessions_with_outbound_connections rest
      else get_sessions_with_outbound_connections rest)"

text \<open>The part of an outbound summary that an external summary also has.\<close>

definition external_part :: "outbound_summary \<Rightarrow> external_summary" where
  "external_part s =
     \<lparr>ext_notebook_name = out_notebook_name s,
      ext_notebook_id = out_notebook_id s,
      ext_livy_id = out_livy_id s,
      ext_workspace_name = out_workspace_name s,
      ext_app_url = out_app_url s,
      ext_total_external_connections = out_total_external_connections s,
      ext_total_trusted_connections = out_total_trusted_connections s,
      ext_external_connection_details = out_external_connection_details s,
      ext_trusted_connection_details = out_trusted_connection_details s\<rparr>"

section \<open>The matches of a line and of a file\<close>

text \<open>
  The connection matches of one line, in the order of the patterns, each with the trust
  decision made for it; and those of the lines of a file, numbered from \<open>n\<close>.
\<close>

definition trusted_decision :: "urllib \<Rightarrow> string list \<Rightarrow> string \<Rightarrow> connection_info \<Rightarrow> bool" where
  "trusted_decision L D line info = (is_trusted_connection L D line info = Inr True)"

fun line_matches ::
  "urllib \<Rightarrow> string list \<Rightarrow> nat \<Rightarrow> string \<Rightarrow> rx list \<Rightarrow> (connection_info \<times> bool) list"
where
  "line_matches L D n line [] = []"
| "line_matches L D n line (pattern # rest) =
     (case re_search True pattern line of
        None \<Rightarrow> line_matches L D n line rest
      | Some m \<Rightarrow>
          (connection_record n line pattern m,
           trusted_decision L D line (connection_record n line pattern m))
            # line_matches L D n line rest)"

fun file_matches ::
  "urllib \<Rightarrow> string list \<Rightarrow> nat \<Rightarrow> string list \<Rightarrow> (connection_info \<times> bool) list"
where
  "file_matches L D n [] = []"
| "file_matches L D n (line # rest) =
     line_matches L D n line CONNECTION_PATTERNS @ file_matches L D (Suc n) rest"

text \<open>The matches of the file at a path: none when the file is missing or its size cannot be read.\<close>

definition analysis_matches ::
  "urllib \<Rightarrow> string list \<Rightarrow> filesystem \<Rightarrow> string \<Rightarrow> (connection_info \<times> bool) list"
where
  "analysis_matches L D fs p =
     (case fs p of
        None \<Rightarrow> []
      | Some f \<Rightarrow>
          (case fsize f of
             Inl e \<Rightarrow> []
           | Inr sz \<Rightarrow> file_matches L D 1 (readlines (content f))))"

text \<open>
  An analysis whose trusted and external connections are among its connections, and a
  session all of whose analyses are so.
\<close>

definition sound_analysis :: "analysis \<Rightarrow> bool" where
  "sound_analysis a =
     (set (external_connections a) \<subseteq> set (connections a)
      \<and> set (trusted_connections a) \<subseteq> set (connections a))"

definition sound_session :: "session_result \<Rightarrow> bool" where
  "sound_session s = list_all (\<lambda>(log_type, a). sound_analysis a) (log_analyses s)"

section \<open>Example inputs\<close>

text \<open>A library whose two checks never raise, an empty file system, and a one-file system.\<close>

definition lib0 :: urllib where
  "lib0 = \<lparr>bracketed_netloc_ok = (\<lambda>nl. True), nfkc_ok = (\<lambda>nl. True)\<rparr>"

definition no_files :: filesystem where
  "no_files p = None"

definition one_file :: "string \<Rightarrow> string \<Rightarrow> filesystem" where
  "one_file name text p =
     (if p = name then Some \<lparr>fsize = Inr (length text), content = text, read_error = None\<rparr>
      else None)"

text \<open>Log lines and tokens of the examples.\<close>

definition abfss_token :: string where
  "abfss_token = ''abfss://550e8400-e29b-41d4-a716-446655440000@acctname.dfs.core.windows.net''"

definition two_pattern_line :: string where
  "two_pattern_line = ''GET https://acct1.blob.core.windows.net/x''"

definition established_line :: string where
  "established_line = ''Established connection to 10.0.0.5:9092 for kafka''"

definition establishing_line :: string where
  "establishing_line = ''Establishing connection to 10.0.0.5:9092 for kafka''"

definition empty_host_line :: string where
  "empty_host_line = ''http://()''"

definition empty_host_abfs_line :: string where
  "empty_host_abfs_line =
     ''http://() abfss://550e8400-e29b-41d4-a716-446655440000@acct.dfs.core.windows.net''"

text \<open>A loader that finds a JSON object without keys at every path.\<close>

definition load_empty_object :: "string \<Rightarrow> load_result" where
  "load_empty_object p = Loaded (JObj [])"

text \<open>
  A run over two sessions: the log of the first has one external connection, the log of
  the second one trusted connection.
\<close>

definition example_files :: filesystem where
  "example_files p =
     (if p = ''s1/stderr''
      then Some \<lparr>fsize = Inr 10, content = ''http://a.b'', read_error = None\<rparr>
      else if p = ''s2/stderr''
      then Some \<lparr>fsize = Inr 16, content = ''http://localhost'', read_error = None\<rparr>
      else None)"

definition example_load :: "string \<Rightarrow> load_result" where
  "example_load p =
     Loaded (JObj [(''log_summaries'',
       JArr [JObj [(''livy_id'', JStr ''1''), (''downloaded_files'', JArr [JStr ''s1/stderr''])],
             JObj [(''livy_id'', JStr ''2''), (''downloaded_files'', JArr [JStr ''s2/stderr''])]])])"

definition example_run :: "py_error + session_result list" where
  "example_run =
     analyze_consolidated_logs lib0 DEFAULT_TRUSTED_DOMAINS example_files example_load
       (Some ''consolidated.json'') []"

section \<open>Totality of the normalizer and of the classifier\<close>

lemma split_chr_nonempty: "split_chr sep s \<noteq> []"
  by (induction s) (auto split: list.splits)

lemma index_first_split: "index_first (split_chr sep s) = Inr (hd (split_chr sep s))"
  using split_chr_nonempty [of sep s] by (cases "split_chr sep s") (auto simp: index_first_def)

lemma index_last_split: "index_last (split_chr sep s) = Inr (last (split_chr sep s))"
  using split_chr_nonempty [of sep s] by (simp add: index_last_def)

lemma extract_hostname_total: "\<exists>h. extract_hostname L s = Inr h"
  by (auto simp: extract_hostname_def Let_def bind_def index_first_split split: option.splits)

lemma workspace_container_total: "\<exists>b. workspace_container h = Inr b"
  by (auto simp: workspace_container_def Let_def bind_def index_first_split index_last_split)

lemma is_trusted_host_total: "\<exists>b. is_trusted_host L D s = Inr b"
proof -
  obtain h where h: "extract_hostname L s = Inr h"
    using extract_hostname_total by blast
  obtain w where w: "workspace_container (lower h) = Inr w"
    using workspace_container_total by blast
  show ?thesis
    by (auto simp: is_trusted_host_def h w bind_def Let_def)
qed

text \<open>
  Claim C8. For every string, \<open>_extract_hostname\<close> returns a string and \<open>is_trusted_host\<close>
  returns a boolean: no input makes either of them raise. The exceptions of \<open>urlparse\<close>
  are caught by the \<open>except\<close> of the normalizer, and no \<open>split(...)[0]\<close> or \<open>[-1]\<close> is
  out of range.
\<close>

theorem normalizer_and_classifier_total:
  "(\<exists>h. extract_hostname L s = Inr h) \<and> (\<exists>b. is_trusted_host L D s = Inr b)"
proof
  show "\<exists>h. extract_hostname L s = Inr h"
    by (rule extract_hostname_total)
  show "\<exists>b. is_trusted_host L D s = Inr b"
    by (rule is_trusted_host_total)
qed

section \<open>The workspace rule on a token with a scheme\<close>


section \<open>Missing files and missing keys\<close>

text \<open>
  Claim C6. For a path that does not exist, \<open>analyze_single_log_file\<close> returns the
  analysis with \<open>file_exists\<close> false, the five lists empty, \<open>file_size\<close> 0 and no error.
\<close>

theorem missing_file_analysis:
  "fs p = None \<Longrightarrow>
   analyze_single_log_file L D fs p =
     \<lparr>log_file = p, connections = [], external_connections = [], trusted_connections = [],
      pip_installs = [], logging_config = [], file_exists = False, file_size = 0, error = None\<rparr>"
  by (simp add: analyze_single_log_file_def)

theorem missing_file_analysis_witness:
  "no_files ''missing.log'' = None
   \<and> analyze_single_log_file lib0 DEFAULT_TRUSTED_DOMAINS no_files ''missing.log'' =
     \<lparr>log_file = ''missing.log'', connections = [], external_connections = [],
      trusted_connections = [], pip_installs = [], logging_config = [], file_exists = False,
      file_size = 0, error = None\<rparr>"
proof -
  have h: "no_files ''missing.log'' = None"
    by (simp add: no_files_def)
  show ?thesis
    using h missing_file_analysis
        [where fs = no_files and p = "''missing.log''" and L = lib0
           and D = DEFAULT_TRUSTED_DOMAINS]
    by simp
qed

text \<open>
  Claim C3, as stated, fails: on a document that is a JSON object without the key
  \<open>log_summaries\<close> the run is not fatal; it returns normally with no session results.
\<close>

theorem missing_log_summaries_counterexample:
  "map_of ([] :: (string \<times> json) list) ''log_summaries'' = None
   \<and> analyze_consolidated_logs lib0 DEFAULT_TRUSTED_DOMAINS no_files load_empty_object
        (Some ''consolidated.json'') [] = Inr []"
  by (simp add: analyze_consolidated_logs_def load_empty_object_def json_get_def json_iter_def
      bind_def)

text \<open>
  Claim C3, amended. When the document loads as a JSON object without the key
  \<open>log_summaries\<close>, the key defaults to the empty list: the run raises nothing, analyzes no
  session and returns the session results unchanged (empty for a new analyzer).
\<close>

theorem missing_log_summaries_is_empty_run:
  "p \<noteq> [] \<Longrightarrow> load p = Loaded (JObj kvs) \<Longrightarrow> map_of kvs ''log_summaries'' = None \<Longrightarrow>
   analyze_consolidated_logs L D fs load (Some p) session_results = Inr session_results"
  by (simp add: analyze_consolidated_logs_def json_get_def json_iter_def bind_def)

theorem missing_log_summaries_is_empty_run_witness:
  "''consolidated.json'' \<noteq> []
   \<and> load_empty_object ''consolidated.json'' = Loaded (JObj [])
   \<and> map_of ([] :: (string \<times> json) list) ''log_summaries'' = None
   \<and> analyze_consolidated_logs lib0 DEFAULT_TRUSTED_DOMAINS no_files load_empty_object
        (Some ''consolidated.json'') [] = Inr []"
proof -
  have h1: "''consolidated.json'' \<noteq> []" by simp
  have h2: "load_empty_object ''consolidated.json'' = Loaded (JObj [])"
    by (simp add: load_empty_object_def)
  have h3: "map_of ([] :: (string \<times> json) list) ''log_summaries'' = None" by simp
  show ?thesis
    using h1 h2 h3
      missing_log_summaries_is_empty_run
        [where p = "''consolidated.json''" and load = load_empty_object and kvs = "[]"
           and L = lib0 and D = DEFAULT_TRUSTED_DOMAINS and fs = no_files
           and session_results = "[]"]
    by simp
qed

section \<open>The connections of a file\<close>

lemma is_trusted_connection_decision:
  "is_trusted_connection L D line info = Inr (trusted_decision L D line info)"
proof -
  obtain b where "is_trusted_host L D (host_token info) = Inr b"
    using is_trusted_host_total by blast
  then show ?thesis
    by (auto simp: is_trusted_connection_def trusted_decision_def)
qed

lemma check_connections_fields:
  "check_connections L D n line ps r =
     (r\<lparr>connections := connections r @ map fst (line_matches L D n line ps),
        external_connections := external_connections r
           @ map fst (filter (\<lambda>x. \<not> snd x) (line_matches L D n line ps)),
        trusted_connections := trusted_connections r
           @ map fst (filter snd (line_matches L D n line ps))\<rparr>, None)"
proof (induction ps arbitrary: r)
  case Nil
  show ?case by simp
next
  case (Cons p ps)
  show ?case
    by (cases "re_search True p line")
       (simp_all add: Cons.IH Let_def is_trusted_connection_decision)
qed

lemma check_pip_fields:
  "connections (check_pip n line ps r) = connections r
   \<and> external_connections (check_pip n line ps r) = external_connections r
   \<and> trusted_connections (check_pip n line ps r) = trusted_connections r"
  by (induction ps arbitrary: r) (auto split: option.splits)

lemma check_logging_fields:
  "connections (check_logging n line ps r) = connections r
   \<and> external_connections (check_logging n line ps r) = external_connections r
   \<and> trusted_connections (check_logging n line ps r) = trusted_connections r"
  by (induction ps arbitrary: r) (auto split: option.splits)

lemma scan_lines_fields:
  "snd (scan_lines L D n ls r) = None
   \<and> connections (fst (scan_lines L D n ls r)) = connections r @ map fst (file_matches L D n ls)
   \<and> external_connections (fst (scan_lines L D n ls r)) =
       external_connections r @ map fst (filter (\<lambda>x. \<not> snd x) (file_matches L D n ls))
   \<and> trusted_connections (fst (scan_lines L D n ls r)) =
       trusted_connections r @ map fst (filter snd (file_matches L D n ls))"
proof (induction ls arbitrary: n r)
  case Nil
  show ?case by simp
next
  case (Cons l ls)
  show ?case
    by (simp add: check_connections_fields Cons.IH check_pip_fields check_logging_fields)
qed


lemma analysis_fields:
  "connections (analyze_single_log_file L D fs p) = map fst (analysis_matches L D fs p)
   \<and> external_connections (analyze_single_log_file L D fs p) =
       map fst (filter (\<lambda>x. \<not> snd x) (analysis_matches L D fs p))
   \<and> trusted_connections (analyze_single_log_file L D fs p) =
       map fst (filter snd (analysis_matches L D fs p))"
proof (cases "fs p")
  case None
  then show ?thesis
    by (simp add: analyze_single_log_file_def analysis_matches_def)
next
  case (Some f)
  show ?thesis
  proof (cases "fsize f")
    case (Inl e)
    with Some show ?thesis
      by (simp add: analyze_single_log_file_def analysis_matches_def)
  next
    case (Inr sz)
    let ?r0 = "\<lparr>log_file = p, connections = [], external_connections = [],
                trusted_connections = [], pip_installs = [], logging_config = [],
                file_exists = True, file_size = sz, error = None\<rparr>"
    obtain r1 where r1: "scan_lines L D 1 (readlines (content f)) ?r0 = (r1, None)"
      using scan_lines_fields [of L D 1 "readlines (content f)" ?r0]
      by (cases "scan_lines L D 1 (readlines (content f)) ?r0") auto
    have f1: "connections r1 = map fst (file_matches L D 1 (readlines (content f)))"
      and f2: "external_connections r1 =
                 map fst (filter (\<lambda>x. \<not> snd x) (file_matches L D 1 (readlines (content f))))"
      and f3: "trusted_connections r1 =
                 map fst (filter snd (file_matches L D 1 (readlines (content f))))"
      using scan_lines_fields [of L D 1 "readlines (content f)" ?r0] r1 by simp_all
    show ?thesis
      using Some Inr r1 f1 f2 f3
      by (simp add: analyze_single_log_file_def analysis_matches_def split: option.splits)
  qed
qed

lemma line_matches_props:
  "x \<in> set (line_matches L D n line ps) \<Longrightarrow>
     line_number (fst x) = n \<and> pattern_matched (fst x) \<in> set ps"
  by (induction ps) (auto simp: connection_record_def split: option.splits)

lemma line_matches_distinct:
  "distinct ps \<Longrightarrow> distinct (map fst (line_matches L D n line ps))"
proof (induction ps)
  case Nil
  show ?case by simp
next
  case (Cons p ps)
  have "\<And>m b. (connection_record n line p m, b) \<notin> set (line_matches L D n line ps)"
  proof
    fix m b
    assume "(connection_record n line p m, b) \<in> set (line_matches L D n line ps)"
    then have "pattern_matched (connection_record n line p m) \<in> set ps"
      using line_matches_props by fastforce
    with Cons.prems show False
      by (simp add: connection_record_def)
  qed
  with Cons show ?case
    by (auto split: option.splits)
qed

lemma file_matches_line_number:
  "x \<in> set (file_matches L D n ls) \<Longrightarrow> n \<le> line_number (fst x)"
proof (induction ls arbitrary: n)
  case Nil
  then show ?case by simp
next
  case (Cons l ls)
  then show ?case
    using line_matches_props [of x L D n l CONNECTION_PATTERNS] by fastforce
qed

lemma distinct_patterns: "distinct CONNECTION_PATTERNS"
  by (simp add: CONNECTION_PATTERNS_def seqs_def lit_def url_host_port_def word_host_port_def
      azure_suffix_def)

lemma file_matches_distinct: "distinct (map fst (file_matches L D n ls))"
proof (induction ls arbitrary: n)
  case Nil
  show ?case by simp
next
  case (Cons l ls)
  have "set (map fst (line_matches L D n l CONNECTION_PATTERNS))
          \<inter> set (map fst (file_matches L D (Suc n) ls)) = {}"
  proof -
    have "\<And>x y. x \<in> set (line_matches L D n l CONNECTION_PATTERNS) \<Longrightarrow>
                 y \<in> set (file_matches L D (Suc n) ls) \<Longrightarrow> fst x \<noteq> fst y"
      using line_matches_props file_matches_line_number
      by (metis Suc_n_not_le_n)
    then show ?thesis by auto
  qed
  with Cons show ?case
    by (simp add: line_matches_distinct distinct_patterns)
qed

lemma analysis_matches_distinct: "distinct (map fst (analysis_matches L D fs p))"
  by (simp add: analysis_matches_def file_matches_distinct split: option.splits sum.splits)

lemma distinct_fst_filter_disjoint:
  "distinct (map fst xs) \<Longrightarrow>
     set (map fst (filter snd xs)) \<inter> set (map fst (filter (\<lambda>x. \<not> snd x) xs)) = {}"
  by (induction xs) force+

text \<open>
  Claim C5. In every analysis of a log file the trusted and the external connections
  partition the connections: together they are the connections, no record is in both,
  their lengths add up, and the records of the connections are pairwise different.
\<close>

theorem connections_partitioned:
  "set (trusted_connections (analyze_single_log_file L D fs p))
     \<union> set (external_connections (analyze_single_log_file L D fs p))
     = set (connections (analyze_single_log_file L D fs p))
   \<and> set (trusted_connections (analyze_single_log_file L D fs p))
     \<inter> set (external_connections (analyze_single_log_file L D fs p)) = {}
   \<and> length (trusted_connections (analyze_single_log_file L D fs p))
     + length (external_connections (analyze_single_log_file L D fs p))
     = length (connections (analyze_single_log_file L D fs p))
   \<and> distinct (connections (analyze_single_log_file L D fs p))"
proof -
  let ?M = "analysis_matches L D fs p"
  have d: "distinct (map fst ?M)"
    by (rule analysis_matches_distinct)
  have u: "set (map fst (filter snd ?M)) \<union> set (map fst (filter (\<lambda>x. \<not> snd x) ?M))
             = set (map fst ?M)"
    by auto
  have i: "set (map fst (filter snd ?M)) \<inter> set (map fst (filter (\<lambda>x. \<not> snd x) ?M)) = {}"
    using d by (rule distinct_fst_filter_disjoint)
  have l: "length (filter snd ?M) + length (filter (\<lambda>x. \<not> snd x) ?M) = length ?M"
    using sum_length_filter_compl [of snd ?M] by simp
  show ?thesis
    using d u i l by (simp add: analysis_fields)
qed

section \<open>The connections line by line\<close>

lemma line_matches_decision:
  "x \<in> set (line_matches L D n line ps) \<Longrightarrow> snd x = trusted_decision L D line (fst x)"
  by (induction ps) (auto split: option.splits)

lemma line_matches_member:
  "p \<in> set ps \<Longrightarrow> re_search True p line = Some m \<Longrightarrow>
     (connection_record n line p m, trusted_decision L D line (connection_record n line p m))
       \<in> set (line_matches L D n line ps)"
  by (induction ps) (auto split: option.splits)

lemma line_matches_none:
  "list_all (\<lambda>p. re_search True p line = None) ps \<Longrightarrow> line_matches L D n line ps = []"
  by (induction ps) auto

lemma line_matches_count:
  "length (line_matches L D n line ps) = length (filter (\<lambda>p. re_search True p line \<noteq> None) ps)"
  by (induction ps) (auto split: option.splits)

lemma file_matches_of_line:
  "filter (\<lambda>x. line_number (fst x) = n + i) (file_matches L D n ls) =
     (if i < length ls then line_matches L D (n + i) (ls ! i) CONNECTION_PATTERNS else [])"
proof (induction ls arbitrary: n i)
  case Nil
  show ?case by simp
next
  case (Cons l ls)
  have here: "\<And>x. x \<in> set (line_matches L D n l CONNECTION_PATTERNS) \<Longrightarrow> line_number (fst x) = n"
    using line_matches_props by blast
  have later: "\<And>x. x \<in> set (file_matches L D (Suc n) ls) \<Longrightarrow> Suc n \<le> line_number (fst x)"
    using file_matches_line_number by blast
  show ?case
  proof (cases i)
    case 0
    have a: "filter (\<lambda>x. line_number (fst x) = n) (line_matches L D n l CONNECTION_PATTERNS)
               = line_matches L D n l CONNECTION_PATTERNS"
      using here by (simp add: filter_id_conv)
    have b: "filter (\<lambda>x. line_number (fst x) = n) (file_matches L D (Suc n) ls) = []"
      using later by (fastforce simp: filter_empty_conv)
    show ?thesis using 0 a b by simp
  next
    case (Suc j)
    have a: "filter (\<lambda>x. line_number (fst x) = n + i) (line_matches L D n l CONNECTION_PATTERNS) = []"
      using here Suc by (fastforce simp: filter_empty_conv)
    have b: "filter (\<lambda>x. line_number (fst x) = Suc n + j) (file_matches L D (Suc n) ls) =
               (if j < length ls then line_matches L D (Suc n + j) (ls ! j) CONNECTION_PATTERNS else [])"
      by (rule Cons.IH)
    show ?thesis using Suc a b by simp
  qed
qed

lemma analysis_matches_of_line:
  "fs p = Some f \<Longrightarrow> fsize f = Inr sz \<Longrightarrow> i < length (readlines (content f)) \<Longrightarrow>
   filter (\<lambda>x. line_number (fst x) = Suc i) (analysis_matches L D fs p) =
     line_matches L D (Suc i) (readlines (content f) ! i) CONNECTION_PATTERNS"
  using file_matches_of_line [of 1 i L D "readlines (content f)"]
  by (simp add: analysis_matches_def)

lemma distinct_fst_tag:
  assumes "distinct (map fst xs)" and "(c, b) \<in> set xs"
  shows "(c \<in> set (map fst (filter snd xs)) \<longleftrightarrow> b)
     \<and> (c \<in> set (map fst (filter (\<lambda>x. \<not> snd x) xs)) \<longleftrightarrow> \<not> b)"
proof -
  have inj: "inj_on fst (set xs)"
    using assms(1) by (simp add: distinct_map)
  have uniq: "b' = b" if "(c, b') \<in> set xs" for b'
  proof -
    have "(c, b') = (c, b)"
      by (rule inj_onD [OF inj _ that assms(2)]) simp
    then show ?thesis by simp
  qed
  have t: "c \<in> set (map fst (filter snd xs)) \<longleftrightarrow> (\<exists>b'. (c, b') \<in> set xs \<and> b')"
    by force
  have e: "c \<in> set (map fst (filter (\<lambda>x. \<not> snd x) xs)) \<longleftrightarrow> (\<exists>b'. (c, b') \<in> set xs \<and> \<not> b')"
    by force
  show ?thesis
    using t e uniq assms(2) by blast
qed

text \<open>How a connection of a line is categorized.\<close>

lemma connection_category:
  assumes "fs p = Some f" and "fsize f = Inr sz" and "i < length (readlines (content f))"
    and "c \<in> set (connections (analyze_single_log_file L D fs p))" and "line_number c = Suc i"
  shows "(c \<in> set (trusted_connections (analyze_single_log_file L D fs p))
            \<longleftrightarrow> trusted_decision L D (readlines (content f) ! i) c)
       \<and> (c \<in> set (external_connections (analyze_single_log_file L D fs p))
            \<longleftrightarrow> \<not> trusted_decision L D (readlines (content f) ! i) c)"
proof -
  let ?M = "analysis_matches L D fs p"
  let ?line = "readlines (content f) ! i"
  obtain b where b: "(c, b) \<in> set ?M"
    using assms(4) by (auto simp: analysis_fields)
  then have "(c, b) \<in> set (filter (\<lambda>x. line_number (fst x) = Suc i) ?M)"
    using assms(5) by simp
  then have "(c, b) \<in> set (line_matches L D (Suc i) ?line CONNECTION_PATTERNS)"
    using assms(1-3)
      analysis_matches_of_line [where fs = fs and p = p and f = f and sz = sz and i = i
        and L = L and D = D]
    by simp
  then have "b = trusted_decision L D ?line c"
    using line_matches_decision by fastforce
  then show ?thesis
    using distinct_fst_tag [OF analysis_matches_distinct b] by (simp add: analysis_fields)
qed

lemma connection_of_match:
  assumes "fs p = Some f" and "fsize f = Inr sz" and "i < length (readlines (content f))"
    and "q \<in> set CONNECTION_PATTERNS" and "re_search True q (readlines (content f) ! i) = Some m"
  shows "connection_record (Suc i) (readlines (content f) ! i) q m
           \<in> set (connections (analyze_single_log_file L D fs p))"
proof -
  let ?M = "analysis_matches L D fs p"
  let ?line = "readlines (content f) ! i"
  have "set (line_matches L D (Suc i) ?line CONNECTION_PATTERNS) \<subseteq> set ?M"
    using assms(1-3) filter_is_subset [of "\<lambda>x. line_number (fst x) = Suc i" ?M]
      analysis_matches_of_line [where fs = fs and p = p and f = f and sz = sz and i = i
        and L = L and D = D]
    by simp
  then have "connection_record (Suc i) ?line q m \<in> fst ` set ?M"
    using line_matches_member [OF assms(4) assms(5), of "Suc i" L D] by force
  then show ?thesis
    by (simp add: analysis_fields)
qed

lemma connections_of_line_count:
  assumes "fs p = Some f" and "fsize f = Inr sz" and "i < length (readlines (content f))"
  shows "length (filter (\<lambda>c. line_number c = Suc i)
                   (connections (analyze_single_log_file L D fs p)))
           = length (filter (\<lambda>q. re_search True q (readlines (content f) ! i) \<noteq> None)
                       CONNECTION_PATTERNS)"
proof -
  let ?M = "analysis_matches L D fs p"
  have "filter (\<lambda>c. line_number c = Suc i) (map fst ?M)
          = map fst (filter (\<lambda>x. line_number (fst x) = Suc i) ?M)"
    by (simp add: filter_map comp_def)
  then show ?thesis
    using assms
      analysis_matches_of_line [where fs = fs and p = p and f = f and sz = sz and i = i
        and L = L and D = D]
    by (simp add: analysis_fields line_matches_count)
qed

lemma trusted_decision_iff:
  "trusted_decision L D line c
     \<longleftrightarrow> abfs_workspace_line line \<or> is_trusted_host L D (host_token c) = Inr True"
  by (simp add: trusted_decision_def is_trusted_connection_def)

lemma empty_host_untrusted:
  "extract_hostname L s = Inr [] \<Longrightarrow> is_trusted_host L D s = Inr False"
  by (simp add: is_trusted_host_def bind_def)

lemma one_file_line:
  "readlines text = [line] \<Longrightarrow>
     one_file name text name = Some \<lparr>fsize = Inr (length text), content = text, read_error = None\<rparr>
     \<and> fsize \<lparr>fsize = Inr (length text), content = text, read_error = None\<rparr> = Inr (length text)
     \<and> 0 < length (readlines (content \<lparr>fsize = Inr (length text), content = text, read_error = None\<rparr>))
     \<and> readlines (content \<lparr>fsize = Inr (length text), content = text, read_error = None\<rparr>) ! 0 = line"
  by (simp add: one_file_def)

text \<open>
  Claim C9. When two different connection patterns match the same line of a log file, the
  analysis holds a record for each of them, with the number of the line, and the two
  records are different; the number of records of a line is the number of patterns that
  match it, so nothing is merged across patterns.
\<close>

theorem two_patterns_two_records:
  assumes "fs p = Some f" and "fsize f = Inr sz" and "i < length (readlines (content f))"
    and "p1 \<in> set CONNECTION_PATTERNS" and "p2 \<in> set CONNECTION_PATTERNS" and "p1 \<noteq> p2"
    and "re_search True p1 (readlines (content f) ! i) = Some m1"
    and "re_search True p2 (readlines (content f) ! i) = Some m2"
  shows "connection_record (Suc i) (readlines (content f) ! i) p1 m1
           \<in> set (connections (analyze_single_log_file L D fs p))
       \<and> connection_record (Suc i) (readlines (content f) ! i) p2 m2
           \<in> set (connections (analyze_single_log_file L D fs p))
       \<and> connection_record (Suc i) (readlines (content f) ! i) p1 m1
           \<noteq> connection_record (Suc i) (readlines (content f) ! i) p2 m2
       \<and> length (filter (\<lambda>c. line_number c = Suc i)
                   (connections (analyze_single_log_file L D fs p)))
           = length (filter (\<lambda>q. re_search True q (readlines (content f) ! i) \<noteq> None)
                       CONNECTION_PATTERNS)"
proof -
  have ne: "connection_record (Suc i) (readlines (content f) ! i) p1 m1
              \<noteq> connection_record (Suc i) (readlines (content f) ! i) p2 m2"
    using assms(6) by (simp add: connection_record_def)
  show ?thesis
    using assms ne
      connection_of_match [where fs = fs and p = p and f = f and sz = sz and i = i
        and q = p1 and m = m1 and L = L and D = D]
      connection_of_match [where fs = fs and p = p and f = f and sz = sz and i = i
        and q = p2 and m = m2 and L = L and D = D]
      connections_of_line_count [where fs = fs and p = p and f = f and sz = sz and i = i
        and L = L and D = D]
    by simp
qed

lemma patterns_length: "length CONNECTION_PATTERNS = 19"
  by (simp add: CONNECTION_PATTERNS_def)

lemma pattern_at: "k < 19 \<Longrightarrow> CONNECTION_PATTERNS ! k \<in> set CONNECTION_PATTERNS"
  by (simp add: patterns_length)

lemma one_file_analysis_line:
  assumes "readlines text = [line]"
  shows "one_file name text name
           = Some \<lparr>fsize = Inr (length text), content = text, read_error = None\<rparr>"
    and "fsize \<lparr>fsize = Inr (length text), content = text, read_error = None\<rparr>
           = Inr (length text)"
    and "0 < length (readlines (content \<lparr>fsize = Inr (length text), content = text,
                                         read_error = None\<rparr>))"
    and "readlines (content \<lparr>fsize = Inr (length text), content = text,
                             read_error = None\<rparr>) ! 0 = line"
  using assms by (simp_all add: one_file_def)

lemma two_pattern_line_read: "readlines two_pattern_line = [two_pattern_line]"
  by code_simp

lemma two_pattern_line_https:
  "re_search True (CONNECTION_PATTERNS ! 1) two_pattern_line
     = Some [(1, ''acct1.blob.core.windows.net/x'')]"
  by code_simp

lemma two_pattern_line_blob:
  "re_search True (CONNECTION_PATTERNS ! 15) two_pattern_line = Some [(1, ''acct1'')]"
  by code_simp

lemma https_is_not_blob: "CONNECTION_PATTERNS ! 1 \<noteq> CONNECTION_PATTERNS ! 15"
  by code_simp

theorem two_patterns_two_records_witness:
  "CONNECTION_PATTERNS ! 1 \<noteq> CONNECTION_PATTERNS ! 15
   \<and> re_search True (CONNECTION_PATTERNS ! 1) two_pattern_line
        = Some [(1, ''acct1.blob.core.windows.net/x'')]
   \<and> re_search True (CONNECTION_PATTERNS ! 15) two_pattern_line = Some [(1, ''acct1'')]
   \<and> connection_record 1 two_pattern_line (CONNECTION_PATTERNS ! 1)
          [(1, ''acct1.blob.core.windows.net/x'')]
        \<in> set (connections (analyze_single_log_file lib0 DEFAULT_TRUSTED_DOMAINS
                   (one_file ''driver.log'' two_pattern_line) ''driver.log''))
   \<and> connection_record 1 two_pattern_line (CONNECTION_PATTERNS ! 15) [(1, ''acct1'')]
        \<in> set (connections (analyze_single_log_file lib0 DEFAULT_TRUSTED_DOMAINS
                   (one_file ''driver.log'' two_pattern_line) ''driver.log''))
   \<and> connection_record 1 two_pattern_line (CONNECTION_PATTERNS ! 1)
          [(1, ''acct1.blob.core.windows.net/x'')]
        \<noteq> connection_record 1 two_pattern_line (CONNECTION_PATTERNS ! 15) [(1, ''acct1'')]"
proof -
  note f = one_file_analysis_line(1) [OF two_pattern_line_read, of "''driver.log''"]
    one_file_analysis_line(2-4) [OF two_pattern_line_read]
  have p1: "CONNECTION_PATTERNS ! 1 \<in> set CONNECTION_PATTERNS"
    by (rule pattern_at) simp
  have p2: "CONNECTION_PATTERNS ! 15 \<in> set CONNECTION_PATTERNS"
    by (rule pattern_at) simp
  show ?thesis
    using f p1 p2 https_is_not_blob two_pattern_line_https two_pattern_line_blob
      two_patterns_two_records
        [where fs = "one_file ''driver.log'' two_pattern_line" and p = "''driver.log''"
           and f = "\<lparr>fsize = Inr (length two_pattern_line), content = two_pattern_line,
                      read_error = None\<rparr>"
           and sz = "length two_pattern_line" and i = 0
           and ?p1.0 = "CONNECTION_PATTERNS ! 1" and ?p2.0 = "CONNECTION_PATTERNS ! 15"
           and ?m1.0 = "[(1, ''acct1.blob.core.windows.net/x'')]" and ?m2.0 = "[(1, ''acct1'')]"
           and L = lib0 and D = DEFAULT_TRUSTED_DOMAINS]
    by simp
qed


section \<open>The lines of the Kafka example\<close>

lemma established_line_match:
  "re_search True (CONNECTION_PATTERNS ! 3) established_line
     = Some [(2, ''9092''), (1, ''10.0.0.5'')]
   \<and> re_search True (CONNECTION_PATTERNS ! 3) (established_line @ [CHR 0x0A])
     = Some [(2, ''9092''), (1, ''10.0.0.5'')]
   \<and> ngroups (CONNECTION_PATTERNS ! 3) = 2"
  by code_simp

lemma establishing_line_no_match:
  "list_all (\<lambda>q. re_search True q (establishing_line @ [CHR 0x0A]) = None) CONNECTION_PATTERNS"
  by code_simp

lemma establishing_last_line_no_match:
  "list_all (\<lambda>q. re_search True q establishing_line = None) CONNECTION_PATTERNS"
  by code_simp


lemma no_match_no_pattern:
  "list_all (\<lambda>q. re_search True q line = None) ps \<Longrightarrow>
     filter (\<lambda>q. re_search True q line \<noteq> None) ps = []"
  by (induction ps) auto

lemma no_match_no_connection:
  assumes "fs p = Some f" and "fsize f = Inr sz" and "i < length (readlines (content f))"
    and "list_all (\<lambda>q. re_search True q (readlines (content f) ! i) = None) CONNECTION_PATTERNS"
  shows "filter (\<lambda>c. line_number c = Suc i) (connections (analyze_single_log_file L D fs p)) = []"
  using assms(1-3) no_match_no_pattern [OF assms(4)]
    connections_of_line_count [where fs = fs and p = p and f = f and sz = sz and i = i
      and L = L and D = D]
  by simp

lemma established_connection:
  assumes "fs p = Some f" and "fsize f = Inr sz" and "i < length (readlines (content f))"
    and "re_search True (CONNECTION_PATTERNS ! 3) (readlines (content f) ! i)
           = Some [(2, ''9092''), (1, ''10.0.0.5'')]"
  shows "\<exists>c \<in> set (connections (analyze_single_log_file L D fs p)).
           line_number c = Suc i \<and> host c = Some ''10.0.0.5'' \<and> port c = Some ''9092''"
proof -
  let ?c = "connection_record (Suc i) (readlines (content f) ! i) (CONNECTION_PATTERNS ! 3)
              [(2, ''9092''), (1, ''10.0.0.5'')]"
  have q: "CONNECTION_PATTERNS ! 3 \<in> set CONNECTION_PATTERNS"
    by (rule pattern_at) simp
  have m: "?c \<in> set (connections (analyze_single_log_file L D fs p))"
    using assms q
      connection_of_match [where fs = fs and p = p and f = f and sz = sz and i = i
        and q = "CONNECTION_PATTERNS ! 3" and m = "[(2, ''9092''), (1, ''10.0.0.5'')]"
        and L = L and D = D]
    by simp
  have v: "line_number ?c = Suc i \<and> host ?c = Some ''10.0.0.5'' \<and> port ?c = Some ''9092''"
    using established_line_match by (simp add: connection_record_def group_def)
  show ?thesis
    using m v by blast
qed

text \<open>
  Claim C2, amended. A line \<open>Established connection to 10.0.0.5:9092 for kafka\<close> of a log
  file (with or without its newline) gives a connection record for that line with host
  \<open>10.0.0.5\<close> and port \<open>9092\<close>; the line \<open>Establishing connection to 10.0.0.5:9092 for kafka\<close>
  is matched by no connection pattern and gives no record.
\<close>

theorem established_line_is_extracted:
  assumes "fs p = Some f" and "fsize f = Inr sz" and "i < length (readlines (content f))"
  shows "(readlines (content f) ! i = established_line
            \<or> readlines (content f) ! i = established_line @ [CHR 0x0A]
          \<longrightarrow> (\<exists>c \<in> set (connections (analyze_single_log_file L D fs p)).
                 line_number c = Suc i \<and> host c = Some ''10.0.0.5'' \<and> port c = Some ''9092''))
       \<and> (readlines (content f) ! i = establishing_line
            \<or> readlines (content f) ! i = establishing_line @ [CHR 0x0A]
          \<longrightarrow> filter (\<lambda>c. line_number c = Suc i)
                 (connections (analyze_single_log_file L D fs p)) = [])"
proof (intro conjI impI)
  assume "readlines (content f) ! i = established_line
            \<or> readlines (content f) ! i = established_line @ [CHR 0x0A]"
  then have "re_search True (CONNECTION_PATTERNS ! 3) (readlines (content f) ! i)
               = Some [(2, ''9092''), (1, ''10.0.0.5'')]"
    using established_line_match by auto
  then show "\<exists>c \<in> set (connections (analyze_single_log_file L D fs p)).
               line_number c = Suc i \<and> host c = Some ''10.0.0.5'' \<and> port c = Some ''9092''"
    using assms established_connection by blast
next
  assume "readlines (content f) ! i = establishing_line
            \<or> readlines (content f) ! i = establishing_line @ [CHR 0x0A]"
  then have "list_all (\<lambda>q. re_search True q (readlines (content f) ! i) = None)
               CONNECTION_PATTERNS"
    using establishing_line_no_match establishing_last_line_no_match by auto
  then show "filter (\<lambda>c. line_number c = Suc i)
               (connections (analyze_single_log_file L D fs p)) = []"
    using assms no_match_no_connection by blast
qed

lemma established_line_read:
  "readlines (established_line @ [CHR 0x0A]) = [established_line @ [CHR 0x0A]]"
  by code_simp

lemma establishing_line_read:
  "readlines (establishing_line @ [CHR 0x0A]) = [establishing_line @ [CHR 0x0A]]"
  by code_simp

theorem established_line_is_extracted_witness:
  "one_file ''driver.log'' (established_line @ [CHR 0x0A]) ''driver.log''
     = Some \<lparr>fsize = Inr (length (established_line @ [CHR 0x0A])),
             content = established_line @ [CHR 0x0A], read_error = None\<rparr>
   \<and> readlines (established_line @ [CHR 0x0A]) ! 0 = established_line @ [CHR 0x0A]
   \<and> (\<exists>c \<in> set (connections (analyze_single_log_file lib0 DEFAULT_TRUSTED_DOMAINS
                      (one_file ''driver.log'' (established_line @ [CHR 0x0A])) ''driver.log'')).
         line_number c = 1 \<and> host c = Some ''10.0.0.5'' \<and> port c = Some ''9092'')"
proof -
  note f = one_file_analysis_line(1) [OF established_line_read, of "''driver.log''"]
    one_file_analysis_line(2-4) [OF established_line_read]
  show ?thesis
    using f established_line_read
      established_line_is_extracted
        [where fs = "one_file ''driver.log'' (established_line @ [CHR 0x0A])"
           and p = "''driver.log''"
           and f = "\<lparr>fsize = Inr (length (established_line @ [CHR 0x0A])),
                      content = established_line @ [CHR 0x0A], read_error = None\<rparr>"
           and sz = "length (established_line @ [CHR 0x0A])" and i = 0
           and L = lib0 and D = DEFAULT_TRUSTED_DOMAINS]
    by simp
qed

text \<open>
  Claim C2, as stated, fails: the analysis of a file whose only line is
  \<open>Establishing connection to 10.0.0.5:9092 for kafka\<close> has no connection at all.
\<close>

theorem establishing_line_counterexample:
  "readlines (establishing_line @ [CHR 0x0A]) = [establishing_line @ [CHR 0x0A]]
   \<and> one_file ''driver.log'' (establishing_line @ [CHR 0x0A]) ''driver.log''
     = Some \<lparr>fsize = Inr (length (establishing_line @ [CHR 0x0A])),
             content = establishing_line @ [CHR 0x0A], read_error = None\<rparr>
   \<and> connections (analyze_single_log_file lib0 DEFAULT_TRUSTED_DOMAINS
      (one_file ''driver.log'' (establishing_line @ [CHR 0x0A])) ''driver.log'') = []"
proof -
  have "analysis_matches lib0 DEFAULT_TRUSTED_DOMAINS
          (one_file ''driver.log'' (establishing_line @ [CHR 0x0A])) ''driver.log''
        = line_matches lib0 DEFAULT_TRUSTED_DOMAINS 1 (establishing_line @ [CHR 0x0A])
            CONNECTION_PATTERNS"
    by (simp add: analysis_matches_def one_file_def establishing_line_read)
  then have "analysis_matches lib0 DEFAULT_TRUSTED_DOMAINS
          (one_file ''driver.log'' (establishing_line @ [CHR 0x0A])) ''driver.log'' = []"
    using line_matches_none [OF establishing_line_no_match] by simp
  then have "connections (analyze_single_log_file lib0 DEFAULT_TRUSTED_DOMAINS
      (one_file ''driver.log'' (establishing_line @ [CHR 0x0A])) ''driver.log'') = []"
    by (simp add: analysis_fields)
  then show ?thesis
    using establishing_line_read by (simp add: one_file_def)
qed

lemma empty_host_tokens:
  "extract_hostname L [] = Inr [] \<and> extract_hostname L ''()'' = Inr []"
  by code_simp

lemma empty_host_line_facts:
  "readlines empty_host_line = [empty_host_line]
   \<and> re_search True (CONNECTION_PATTERNS ! 1) empty_host_line = Some [(1, ''()'')]
   \<and> \<not> abfs_workspace_line empty_host_line"
  by code_simp

lemma empty_host_abfs_line_facts:
  "readlines empty_host_abfs_line = [empty_host_abfs_line]
   \<and> re_search True (CONNECTION_PATTERNS ! 1) empty_host_abfs_line = Some [(1, ''()'')]
   \<and> abfs_workspace_line empty_host_abfs_line"
  by code_simp

lemma empty_host_record:
  "host_token (connection_record n line q [(1, ''()'')]) = ''()''
   \<and> host (connection_record n line q [(1, ''()'')]) = Some ''()''
   \<and> line_number (connection_record n line q [(1, ''()'')]) = n"
  by (simp add: host_token_def connection_record_def group_def)

section \<open>Connections without a host name\<close>

text \<open>
  Claim C10, amended. When the normalizer returns the empty string for a token (as it does
  for the empty string and for \<open>()\<close>), \<open>is_trusted_host\<close> returns false; the connection
  of such a token is categorized external, and never trusted, unless the check of the raw
  line finds an ABFS URL with a workspace UUID in its line, in which case it is
  categorized trusted.
\<close>

theorem empty_host_is_external_unless_abfs_line:
  "(extract_hostname L s = Inr [] \<longrightarrow> is_trusted_host L D s = Inr False)
   \<and> extract_hostname L [] = Inr []
   \<and> extract_hostname L ''()'' = Inr []
   \<and> (fs p = Some f \<and> fsize f = Inr sz \<and> i < length (readlines (content f))
        \<and> c \<in> set (connections (analyze_single_log_file L D fs p))
        \<and> line_number c = Suc i
        \<and> extract_hostname L (host_token c) = Inr []
      \<longrightarrow> (c \<in> set (trusted_connections (analyze_single_log_file L D fs p))
             \<longleftrightarrow> abfs_workspace_line (readlines (content f) ! i))
        \<and> (c \<in> set (external_connections (analyze_single_log_file L D fs p))
             \<longleftrightarrow> \<not> abfs_workspace_line (readlines (content f) ! i)))"
proof (intro conjI impI)
  assume "extract_hostname L s = Inr []"
  then show "is_trusted_host L D s = Inr False"
    by (rule empty_host_untrusted)
next
  show "extract_hostname L [] = Inr []"
    using empty_host_tokens by simp
next
  show "extract_hostname L ''()'' = Inr []"
    using empty_host_tokens by simp
next
  assume a: "fs p = Some f \<and> fsize f = Inr sz \<and> i < length (readlines (content f))
        \<and> c \<in> set (connections (analyze_single_log_file L D fs p))
        \<and> line_number c = Suc i
        \<and> extract_hostname L (host_token c) = Inr []"
  then have u: "is_trusted_host L D (host_token c) = Inr False"
    using empty_host_untrusted by blast
  have d: "trusted_decision L D (readlines (content f) ! i) c
             \<longleftrightarrow> abfs_workspace_line (readlines (content f) ! i)"
    using u by (simp add: trusted_decision_iff)
  have k: "(c \<in> set (trusted_connections (analyze_single_log_file L D fs p))
            \<longleftrightarrow> trusted_decision L D (readlines (content f) ! i) c)
       \<and> (c \<in> set (external_connections (analyze_single_log_file L D fs p))
            \<longleftrightarrow> \<not> trusted_decision L D (readlines (content f) ! i) c)"
    using a connection_category [where fs = fs and p = p and f = f and sz = sz and i = i
        and c = c and L = L and D = D]
    by simp
  show "c \<in> set (trusted_connections (analyze_single_log_file L D fs p))
          \<longleftrightarrow> abfs_workspace_line (readlines (content f) ! i)"
    using k d by simp
  show "c \<in> set (external_connections (analyze_single_log_file L D fs p))
          \<longleftrightarrow> \<not> abfs_workspace_line (readlines (content f) ! i)"
    using k d by simp
qed

lemma one_file_connection:
  assumes "readlines text = [line]" and "q \<in> set CONNECTION_PATTERNS"
    and "re_search True q line = Some m"
  shows "connection_record 1 line q m
           \<in> set (connections (analyze_single_log_file L D (one_file name text) name))"
  using assms one_file_analysis_line(1) [OF assms(1), of name]
    one_file_analysis_line(2-4) [OF assms(1)]
    connection_of_match [where fs = "one_file name text" and p = name
      and f = "\<lparr>fsize = Inr (length text), content = text, read_error = None\<rparr>"
      and sz = "length text" and i = 0 and q = q and m = m and L = L and D = D]
  by simp

theorem empty_host_is_external_unless_abfs_line_witness:
  "extract_hostname lib0 (host_token (connection_record 1 empty_host_line
       (CONNECTION_PATTERNS ! 1) [(1, ''()'')])) = Inr []
   \<and> is_trusted_host lib0 DEFAULT_TRUSTED_DOMAINS ''()'' = Inr False
   \<and> connection_record 1 empty_host_line (CONNECTION_PATTERNS ! 1) [(1, ''()'')]
        \<in> set (connections (analyze_single_log_file lib0 DEFAULT_TRUSTED_DOMAINS
                  (one_file ''driver.log'' empty_host_line) ''driver.log''))
   \<and> connection_record 1 empty_host_line (CONNECTION_PATTERNS ! 1) [(1, ''()'')]
        \<in> set (external_connections (analyze_single_log_file lib0 DEFAULT_TRUSTED_DOMAINS
                  (one_file ''driver.log'' empty_host_line) ''driver.log''))
   \<and> connection_record 1 empty_host_line (CONNECTION_PATTERNS ! 1) [(1, ''()'')]
        \<notin> set (trusted_connections (analyze_single_log_file lib0 DEFAULT_TRUSTED_DOMAINS
                  (one_file ''driver.log'' empty_host_line) ''driver.log''))"
proof -
  let ?c = "connection_record 1 empty_host_line (CONNECTION_PATTERNS ! 1) [(1, ''()'')]"
  have r: "readlines empty_host_line = [empty_host_line]"
    using empty_host_line_facts by simp
  have q: "CONNECTION_PATTERNS ! 1 \<in> set CONNECTION_PATTERNS"
    by (rule pattern_at) simp
  have m: "?c \<in> set (connections (analyze_single_log_file lib0 DEFAULT_TRUSTED_DOMAINS
                  (one_file ''driver.log'' empty_host_line) ''driver.log''))"
    using one_file_connection [OF r q] empty_host_line_facts by simp
  note f = one_file_analysis_line(1) [OF r, of "''driver.log''"]
    one_file_analysis_line(2-4) [OF r]
  show ?thesis
    using m f empty_host_line_facts empty_host_record [of 1 empty_host_line "CONNECTION_PATTERNS ! 1"]
      empty_host_is_external_unless_abfs_line
        [where L = lib0 and D = DEFAULT_TRUSTED_DOMAINS and s = "''()''"
           and fs = "one_file ''driver.log'' empty_host_line" and p = "''driver.log''"
           and f = "\<lparr>fsize = Inr (length empty_host_line), content = empty_host_line,
                      read_error = None\<rparr>"
           and sz = "length empty_host_line" and i = 0 and c = ?c]
    by simp
qed

text \<open>
  Claim C10, as stated, fails: on the line
  \<open>http://() abfss://550e8400-e29b-41d4-a716-446655440000@acct.dfs.core.windows.net\<close> the
  match of the HTTP pattern has the host \<open>()\<close>, for which the normalizer returns the empty
  string and \<open>is_trusted_host\<close> false, and it is categorized trusted.
\<close>

theorem empty_host_trusted_counterexample:
  "extract_hostname lib0 (host_token (connection_record 1 empty_host_abfs_line
       (CONNECTION_PATTERNS ! 1) [(1, ''()'')])) = Inr []
   \<and> is_trusted_host lib0 DEFAULT_TRUSTED_DOMAINS (host_token (connection_record 1
       empty_host_abfs_line (CONNECTION_PATTERNS ! 1) [(1, ''()'')])) = Inr False
   \<and> connection_record 1 empty_host_abfs_line (CONNECTION_PATTERNS ! 1) [(1, ''()'')]
        \<in> set (connections (analyze_single_log_file lib0 DEFAULT_TRUSTED_DOMAINS
                  (one_file ''driver.log'' empty_host_abfs_line) ''driver.log''))
   \<and> connection_record 1 empty_host_abfs_line (CONNECTION_PATTERNS ! 1) [(1, ''()'')]
        \<in> set (trusted_connections (analyze_single_log_file lib0 DEFAULT_TRUSTED_DOMAINS
                  (one_file ''driver.log'' empty_host_abfs_line) ''driver.log''))
   \<and> connection_record 1 empty_host_abfs_line (CONNECTION_PATTERNS ! 1) [(1, ''()'')]
        \<notin> set (external_connections (analyze_single_log_file lib0 DEFAULT_TRUSTED_DOMAINS
                  (one_file ''driver.log'' empty_host_abfs_line) ''driver.log''))"
proof -
  let ?c = "connection_record 1 empty_host_abfs_line (CONNECTION_PATTERNS ! 1) [(1, ''()'')]"
  have r: "readlines empty_host_abfs_line = [empty_host_abfs_line]"
    using empty_host_abfs_line_facts by simp
  have q: "CONNECTION_PATTERNS ! 1 \<in> set CONNECTION_PATTERNS"
    by (rule pattern_at) simp
  have m: "?c \<in> set (connections (analyze_single_log_file lib0 DEFAULT_TRUSTED_DOMAINS
                  (one_file ''driver.log'' empty_host_abfs_line) ''driver.log''))"
    using one_file_connection [OF r q] empty_host_abfs_line_facts by simp
  have h: "extract_hostname lib0 (host_token ?c) = Inr []"
    using empty_host_tokens [of lib0]
      empty_host_record [of 1 empty_host_abfs_line "CONNECTION_PATTERNS ! 1"]
    by simp
  have d: "trusted_decision lib0 DEFAULT_TRUSTED_DOMAINS empty_host_abfs_line ?c"
    using empty_host_abfs_line_facts by (simp add: trusted_decision_iff)
  note f = one_file_analysis_line(1) [OF r, of "''driver.log''"]
    one_file_analysis_line(2-4) [OF r]
  have k: "?c \<in> set (trusted_connections (analyze_single_log_file lib0 DEFAULT_TRUSTED_DOMAINS
                  (one_file ''driver.log'' empty_host_abfs_line) ''driver.log''))
         \<and> ?c \<notin> set (external_connections (analyze_single_log_file lib0
                  DEFAULT_TRUSTED_DOMAINS
                  (one_file ''driver.log'' empty_host_abfs_line) ''driver.log''))"
    using m f d empty_host_record [of 1 empty_host_abfs_line "CONNECTION_PATTERNS ! 1"]
      connection_category
        [where fs = "one_file ''driver.log'' empty_host_abfs_line" and p = "''driver.log''"
           and f = "\<lparr>fsize = Inr (length empty_host_abfs_line),
                      content = empty_host_abfs_line, read_error = None\<rparr>"
           and sz = "length empty_host_abfs_line" and i = 0 and c = ?c
           and L = lib0 and D = DEFAULT_TRUSTED_DOMAINS]
    by simp
  show ?thesis
    using m h k empty_host_untrusted [OF h] by simp
qed

end
